theory Spec2Isabelle
  imports Complex_Main "HOL-Library.Word"
begin

section \<open>Build policy and failures\<close>

text \<open>
  The header guards every contract check by the macro \<^verbatim>\<open>JSONCPP_ENABLE_ASSERTS\<close>:
  \<^item> \<^verbatim>\<open>JSONCPP_ASSERT(c)\<close> is \<^verbatim>\<open>assert(c)\<close> when the macro is defined and nothing otherwise;
  \<^item> \<^verbatim>\<open>JSONCPP_FAIL_MESSAGE(m)\<close> is \<^verbatim>\<open>throw std::runtime_error(m)\<close> when the macro is
    defined and nothing otherwise;
  \<^item> \<^verbatim>\<open>JSONCPP_ASSERT_MESSAGE(c, m)\<close> throws the same exception when \<^verbatim>\<open>c\<close> is false.
  The plain \<^verbatim>\<open>assert\<close> of the C library is switched off by \<^verbatim>\<open>NDEBUG\<close>. A build is the
  pair of these two switches; a failure is a value.
\<close>

record build =
  enable_asserts :: bool
  ndebug :: bool

datatype error = runtime_error string | assertion_failure | undefined_behaviour

definition assert_fails :: "build \<Rightarrow> bool \<Rightarrow> bool" where
  "assert_fails b c = (\<not> ndebug b \<and> \<not> c)"

definition JSONCPP_ASSERT_fails :: "build \<Rightarrow> bool \<Rightarrow> bool" where
  "JSONCPP_ASSERT_fails b c = (enable_asserts b \<and> assert_fails b c)"

definition JSONCPP_ASSERT_MESSAGE_fails :: "build \<Rightarrow> bool \<Rightarrow> bool" where
  "JSONCPP_ASSERT_MESSAGE_fails b c = (enable_asserts b \<and> \<not> c)"

text \<open>The checked build: both kinds of check are compiled in.\<close>

definition checked :: build where
  "checked = \<lparr>enable_asserts = True, ndebug = False\<rparr>"

section \<open>Scalar types\<close>

text \<open>
  Modelled from the spec: the integer typedefs of the absent configuration header.
  \<^verbatim>\<open>Json::Int\<close> and \<^verbatim>\<open>Json::UInt\<close> are the 32-bit signed and unsigned integers,
  \<^verbatim>\<open>ArrayIndex\<close> is a 32-bit unsigned integer, \<^verbatim>\<open>LargestInt\<close> and \<^verbatim>\<open>LargestUInt\<close> are the 64-bit ones. A word
  carries no sign: \<open>sint\<close> reads it as two's complement, \<open>uint\<close> as unsigned.
\<close>

type_synonym Json_Int = "32 word"
type_synonym Json_UInt = "32 word"
type_synonym ArrayIndex = "32 word"
type_synonym LargestInt = "64 word"
type_synonym LargestUInt = "64 word"

text \<open>The limits, \<^verbatim>\<open>std::numeric_limits<T>::min()\<close> and \<^verbatim>\<open>max()\<close>, as mathematical integers.\<close>

definition minInt :: int where "minInt = - (2 ^ 31)"
definition maxInt :: int where "maxInt = 2 ^ 31 - 1"
definition maxUInt :: int where "maxUInt = 2 ^ 32 - 1"

text \<open>
  A \<^verbatim>\<open>double\<close>, as far as comparison and truncation go: a finite value is a rational
  number (every finite binary64 value is one; the two zeros compare equal and are one
  value here), and there are the two infinities and the unordered NaN. Every comparison
  with NaN is false, also \<^verbatim>\<open>==\<close>.
\<close>

datatype double = Finite rat | PlusInf | MinusInf | NaN

fun double_less :: "double \<Rightarrow> double \<Rightarrow> bool" where
  "double_less NaN y = False"
| "double_less x NaN = False"
| "double_less (Finite a) (Finite b) = (a < b)"
| "double_less (Finite a) PlusInf = True"
| "double_less (Finite a) MinusInf = False"
| "double_less PlusInf y = False"
| "double_less MinusInf MinusInf = False"
| "double_less MinusInf y = True"

definition double_eq :: "double \<Rightarrow> double \<Rightarrow> bool" where
  "double_eq x y = (x \<noteq> NaN \<and> y \<noteq> NaN \<and> x = y)"

definition double_le :: "double \<Rightarrow> double \<Rightarrow> bool" where
  "double_le x y = (double_less x y \<or> double_eq x y)"

text \<open>An integer operand of a mixed comparison is converted to \<^verbatim>\<open>double\<close>; 32-bit values convert exactly.\<close>

definition double_of_int :: "int \<Rightarrow> double" where
  "double_of_int i = Finite (of_int i)"

text \<open>\<^verbatim>\<open>Int(d)\<close>: truncation towards zero, taken to 32 bits. The code guards it by a range check.\<close>

definition trunc :: "rat \<Rightarrow> int" where
  "trunc q = (if 0 \<le> q then \<lfloor>q\<rfloor> else \<lceil>q\<rceil>)"

fun Int_of_double :: "double \<Rightarrow> Json_Int" where
  "Int_of_double (Finite r) = word_of_int (trunc r)"
| "Int_of_double d = word_of_int minInt"

section \<open>C strings\<close>

text \<open>
  A non-null C string is modelled by the bytes before its terminator, a null pointer by
  \<open>None\<close>. \<^verbatim>\<open>strcmp\<close> compares bytes as unsigned characters; only the sign of its result is
  used by the code, so the result is -1, 0 or 1. Two equal non-null pointers address equal
  contents, so a pointer comparison that short-circuits a content comparison agrees with it.
\<close>

fun strcmp :: "string \<Rightarrow> string \<Rightarrow> int" where
  "strcmp [] [] = 0"
| "strcmp [] (y # ys) = - 1"
| "strcmp (x # xs) [] = 1"
| "strcmp (x # xs) (y # ys) =
     (if (of_char x :: nat) < of_char y then - 1
      else if (of_char y :: nat) < of_char x then 1
      else strcmp xs ys)"

text \<open>
  \<^verbatim>\<open>duplicateStringValue(value)\<close> with the length left unknown: a fresh buffer of
  \<^verbatim>\<open>strlen(value)\<close> bytes and a terminator, holding the same bytes. The allocation is
  taken to succeed. Who owns a buffer is what the flags of its holder say.
\<close>

definition duplicateStringValue :: "string \<Rightarrow> string option" where
  "duplicateStringValue s = Some s"

section \<open>Keys\<close>

text \<open>
  \<^verbatim>\<open>Value::CZString\<close> has two fields, \<^verbatim>\<open>cstr_\<close> and \<^verbatim>\<open>index_\<close> (selectors \<open>c_str\<close> and
  \<open>index\<close> here, after the two accessors). A key with a null \<^verbatim>\<open>cstr_\<close> is an array index
  and \<^verbatim>\<open>index_\<close> is that index; a key with a string is a member name and \<^verbatim>\<open>index_\<close> holds
  its duplication policy.
\<close>

datatype CZString = CZString (c_str: "string option") (index: ArrayIndex)

definition noDuplication :: ArrayIndex where "noDuplication = 0"
definition duplicate :: ArrayIndex where "duplicate = 1"
definition duplicateOnCopy :: ArrayIndex where "duplicateOnCopy = 2"

text \<open>\<^verbatim>\<open>CZString(ArrayIndex index)\<close>\<close>

definition CZString_of_index :: "ArrayIndex \<Rightarrow> CZString" where
  "CZString_of_index i = CZString None i"

text \<open>\<^verbatim>\<open>CZString(const char* cstr, DuplicationPolicy allocate)\<close>, on a non-null string.\<close>

definition CZString_of_cstr :: "string \<Rightarrow> ArrayIndex \<Rightarrow> CZString" where
  "CZString_of_cstr s allocate =
     CZString (if allocate = duplicate then duplicateStringValue s else Some s) allocate"

text \<open>\<^verbatim>\<open>CZString(const CZString& other)\<close>\<close>

definition CZString_copy :: "CZString \<Rightarrow> CZString" where
  "CZString_copy other =
     CZString
       (if index other \<noteq> noDuplication \<and> c_str other \<noteq> None
        then duplicateStringValue (the (c_str other)) else c_str other)
       (if c_str other \<noteq> None
        then (if index other = noDuplication then noDuplication else duplicate)
        else index other)"

definition isStaticString :: "CZString \<Rightarrow> bool" where
  "isStaticString k = (index k = noDuplication)"

text \<open>\<^verbatim>\<open>CZString::operator<\<close> and \<^verbatim>\<open>CZString::operator==\<close>\<close>

definition CZString_less :: "CZString \<Rightarrow> CZString \<Rightarrow> bool" where
  "CZString_less a b =
     (case (c_str a, c_str b) of
        (None, None) \<Rightarrow> False
      | (Some s, Some t) \<Rightarrow> strcmp s t < 0
      | _ \<Rightarrow> False)"

definition CZString_eq :: "CZString \<Rightarrow> CZString \<Rightarrow> bool" where
  "CZString_eq a b =
     (case (c_str a, c_str b) of
        (Some s, Some t) \<Rightarrow> strcmp s t = 0
      | (None, None) \<Rightarrow> True
      | _ \<Rightarrow> False)"

section \<open>Document nodes\<close>

datatype ValueType =
  nullValue | intValue | uintValue | realValue | stringValue | booleanValue | arrayValue | objectValue

text \<open>The enumerators count from 0 in this order; \<^verbatim>\<open>operator<\<close> subtracts them.\<close>

fun ValueType_rank :: "ValueType \<Rightarrow> int" where
  "ValueType_rank nullValue = 0"
| "ValueType_rank intValue = 1"
| "ValueType_rank uintValue = 2"
| "ValueType_rank realValue = 3"
| "ValueType_rank stringValue = 4"
| "ValueType_rank booleanValue = 5"
| "ValueType_rank arrayValue = 6"
| "ValueType_rank objectValue = 7"

text \<open>
  A \<^verbatim>\<open>Value\<close> has the fields \<^verbatim>\<open>value_\<close>, \<^verbatim>\<open>type_\<close> and \<^verbatim>\<open>allocated_\<close> (selectors \<open>holder\<close>,
  \<open>type\<close> and \<open>allocated\<close>). The union \<^verbatim>\<open>ValueHolder\<close> has one constructor for each member;
  \<^verbatim>\<open>int_\<close> and \<^verbatim>\<open>uint_\<close> overlay the same 64 bits and share \<open>U_int\<close>. The member \<^verbatim>\<open>map_\<close>
  owns a \<^verbatim>\<open>std::map<CZString, Value, CZStringCompare>\<close>: here the list of its entries in
  iteration order.
\<close>

datatype Value = Value (type: ValueType) (holder: ValueHolder) (allocated: bool)
  and ValueHolder =
    U_int LargestInt
  | U_real double
  | U_bool bool
  | U_string "string option"
  | U_map "(CZString \<times> Value) list"

type_synonym ObjectValues = "(CZString \<times> Value) list"

text \<open>Reading a member of the union.\<close>

fun int_of :: "ValueHolder \<Rightarrow> LargestInt" where
  "int_of (U_int w) = w"
| "int_of h = 0"

fun real_of :: "ValueHolder \<Rightarrow> double" where
  "real_of (U_real d) = d"
| "real_of h = Finite 0"

fun bool_of :: "ValueHolder \<Rightarrow> bool" where
  "bool_of (U_bool b) = b"
| "bool_of h = False"

fun string_of :: "ValueHolder \<Rightarrow> string option" where
  "string_of (U_string s) = s"
| "string_of h = None"

fun map_of_holder :: "ValueHolder \<Rightarrow> ObjectValues" where
  "map_of_holder (U_map m) = m"
| "map_of_holder h = []"

text \<open>
  A node is well formed when the active member of its union is the one its tag names. The
  value-initialised union of a null node is all zero bits, read as \<open>U_int 0\<close>.
\<close>

fun holds :: "ValueType \<Rightarrow> ValueHolder \<Rightarrow> bool" where
  "holds nullValue (U_int w) = True"
| "holds intValue (U_int w) = True"
| "holds uintValue (U_int w) = True"
| "holds realValue (U_real d) = True"
| "holds booleanValue (U_bool b) = True"
| "holds stringValue (U_string s) = True"
| "holds arrayValue (U_map m) = True"
| "holds objectValue (U_map m) = True"
| "holds t h = False"

text \<open>\<^verbatim>\<open>Value::Value(ValueType type)\<close>, whose default argument is \<^verbatim>\<open>nullValue\<close>.\<close>

fun Value_of_type :: "ValueType \<Rightarrow> Value" where
  "Value_of_type nullValue = Value nullValue (U_int 0) False"
| "Value_of_type intValue = Value intValue (U_int 0) False"
| "Value_of_type uintValue = Value uintValue (U_int 0) False"
| "Value_of_type realValue = Value realValue (U_real (Finite 0)) False"
| "Value_of_type stringValue = Value stringValue (U_string None) False"
| "Value_of_type arrayValue = Value arrayValue (U_map []) False"
| "Value_of_type objectValue = Value objectValue (U_map []) False"
| "Value_of_type booleanValue = Value booleanValue (U_bool False) False"

text \<open>The static \<^verbatim>\<open>Value::null\<close>.\<close>

definition Value_null :: Value where
  "Value_null = Value_of_type nullValue"

text \<open>The constructors from scalars and strings.\<close>

definition Value_of_Int64 :: "LargestInt \<Rightarrow> Value" where
  "Value_of_Int64 v = Value intValue (U_int v) False"

definition Value_of_UInt64 :: "LargestUInt \<Rightarrow> Value" where
  "Value_of_UInt64 v = Value uintValue (U_int v) False"

definition Value_of_double :: "double \<Rightarrow> Value" where
  "Value_of_double v = Value realValue (U_real v) False"

definition Value_of_cstr :: "string \<Rightarrow> Value" where
  "Value_of_cstr s = Value stringValue (U_string (duplicateStringValue s)) True"

definition Value_of_StaticString :: "string \<Rightarrow> Value" where
  "Value_of_StaticString s = Value stringValue (U_string (Some s)) False"

definition Value_of_bool :: "bool \<Rightarrow> Value" where
  "Value_of_bool v = Value booleanValue (U_bool v) False"

subsection \<open>Type predicates\<close>

definition isNull :: "Value \<Rightarrow> bool" where
  "isNull v = (type v = nullValue)"

definition isArray :: "Value \<Rightarrow> bool" where
  "isArray v = (type v = nullValue \<or> type v = arrayValue)"

definition isObject :: "Value \<Rightarrow> bool" where
  "isObject v = (type v = nullValue \<or> type v = objectValue)"

subsection \<open>Copy, swap, move and assignment\<close>

text \<open>
  \<^verbatim>\<open>Value::Value(const Value& other)\<close>. The new node starts with \<^verbatim>\<open>allocated_\<close> false. A
  non-null string is duplicated whatever \<^verbatim>\<open>other.allocated_\<close> says; a container gets a new
  map, whose copy constructor copies every entry with the copy constructors of the key
  and of the node. The last equation is the scalar case, \<^verbatim>\<open>value_ = other.value_\<close>; it also
  gives a value to the nodes whose union does not hold what the tag names, which no
  constructor builds.
\<close>

fun Value_copy :: "Value \<Rightarrow> Value" where
  "Value_copy (Value stringValue h a) =
     (case string_of h of
        Some s \<Rightarrow> Value stringValue (U_string (duplicateStringValue s)) True
      | None \<Rightarrow> Value stringValue (U_string None) False)"
| "Value_copy (Value arrayValue (U_map m) a) =
     Value arrayValue (U_map (map (\<lambda>(k, v). (CZString_copy k, Value_copy v)) m)) False"
| "Value_copy (Value objectValue (U_map m) a) =
     Value objectValue (U_map (map (\<lambda>(k, v). (CZString_copy k, Value_copy v)) m)) False"
| "Value_copy (Value t h a) = Value t h False"

text \<open>
  \<^verbatim>\<open>Value::swap\<close> exchanges \<^verbatim>\<open>type_\<close> and \<^verbatim>\<open>value_\<close>; each node keeps its own
  \<^verbatim>\<open>allocated_\<close>. The pair is (this, other), before and after.
\<close>

definition Value_swap :: "Value \<times> Value \<Rightarrow> Value \<times> Value" where
  "Value_swap p =
     (case p of (this, other) \<Rightarrow>
        (Value (type other) (holder other) (allocated this),
         Value (type this) (holder this) (allocated other)))"

text \<open>
  \<^verbatim>\<open>Value::Value(Value&& other)\<close>: the new node is default-constructed and swapped with the
  source. The result is (new node, source afterwards).
\<close>

definition Value_move :: "Value \<Rightarrow> Value \<times> Value" where
  "Value_move other = Value_swap (Value_of_type nullValue, other)"

text \<open>\<^verbatim>\<open>Value::operator=(Value&& other)\<close> on two distinct nodes: (this, other) before and after.\<close>

definition Value_move_assign :: "Value \<times> Value \<Rightarrow> Value \<times> Value" where
  "Value_move_assign p = Value_swap p"

text \<open>
  \<^verbatim>\<open>Value::operator=(const Value& other)\<close> on two distinct nodes: a temporary copy is
  swapped in and then destroyed. The result is the assigned node.
\<close>

definition Value_assign :: "Value \<Rightarrow> Value \<Rightarrow> Value" where
  "Value_assign this other = fst (Value_swap (this, Value_copy other))"

subsection \<open>What a copy keeps\<close>

text \<open>
  A node is well tagged when, at every depth, the active member of the union is the one
  the tag names. The content of a node is the node without its ownership marks: the
  \<^verbatim>\<open>allocated_\<close> flags and the policies of the names. The strings of a node are owned when
  every string payload that is not null has \<^verbatim>\<open>allocated_\<close> set, and every key is an index,
  a no-duplication name or an owned duplicate.
\<close>

fun well_tagged :: "Value \<Rightarrow> bool" where
  "well_tagged (Value t h a) =
     (holds t h \<and> (case h of U_map m \<Rightarrow> list_all (\<lambda>e. well_tagged (snd e)) m | _ \<Rightarrow> True))"

definition key_content :: "CZString \<Rightarrow> CZString" where
  "key_content k = CZString (c_str k) (if c_str k = None then index k else 0)"

fun content :: "Value \<Rightarrow> Value" where
  "content (Value t (U_map m) a) =
     Value t (U_map (map (\<lambda>e. (key_content (fst e), content (snd e))) m)) False"
| "content (Value t h a) = Value t h False"

definition key_settled :: "CZString \<Rightarrow> bool" where
  "key_settled k = (c_str k = None \<or> index k = noDuplication \<or> index k = duplicate)"

fun strings_owned :: "Value \<Rightarrow> bool" where
  "strings_owned (Value t (U_string s) a) = (s = None \<or> a)"
| "strings_owned (Value t (U_map m) a) =
     list_all (\<lambda>e. key_settled (fst e) \<and> strings_owned (snd e)) m"
| "strings_owned (Value t h a) = True"

text \<open>
  What the copy of a key and the copy of a node are, in the words of the amended claim. The
  copy of a key has the same string or index; a no-duplication name stays a
  no-duplication name, and a name of any other policy becomes an owned duplicate. The copy
  of a node has the same tag; a string that is not null is an owned duplicate, whoever
  owned the original; a container has as many entries, each the copy of its key with the
  copy of its node, in the same order; any other payload is the same and nothing is
  owned.
\<close>

definition is_key_copy :: "CZString \<Rightarrow> CZString \<Rightarrow> bool" where
  "is_key_copy k c =
     (c_str c = c_str k
      \<and> index c =
          (if c_str k = None then index k
           else if index k = noDuplication then noDuplication
           else duplicate))"

fun is_deep_copy :: "Value \<Rightarrow> Value \<Rightarrow> bool" where
  "is_deep_copy (Value t (U_string (Some s)) a) c =
     (c = Value t (U_string (Some s)) True)"
| "is_deep_copy (Value t (U_map m) a) c =
     (type c = t \<and> allocated c = False
      \<and> (case holder c of
            U_map n \<Rightarrow>
              list_all2 (\<lambda>e d. is_key_copy (fst e) (fst d) \<and> is_deep_copy (snd e) (snd d)) m n
          | _ \<Rightarrow> False))"
| "is_deep_copy (Value t h a) c = (c = Value t h False)"

subsection \<open>The ordered store\<close>

text \<open>
  The entries of a \<^verbatim>\<open>std::map\<close> are kept in the order of its comparator, and a lookup
  returns the first entry that is not before the key, when the key is not before that
  entry either. \<open>lt e\<close> stands for \<^verbatim>\<open>comp(e, key)\<close> and \<open>gt e\<close> for \<^verbatim>\<open>comp(key, e)\<close>, so
  that one function serves every overload of the transparent comparator. A store holds
  keys of one kind, all indices or all names; on such a store the comparator is a strict
  weak order and the list agrees with the tree.
\<close>

definition lower_bound :: "(CZString \<Rightarrow> bool) \<Rightarrow> ObjectValues \<Rightarrow> nat" where
  "lower_bound lt m = length (takeWhile (\<lambda>e. lt (fst e)) m)"

definition ObjectValues_find ::
  "(CZString \<Rightarrow> bool) \<Rightarrow> (CZString \<Rightarrow> bool) \<Rightarrow> ObjectValues \<Rightarrow> nat option" where
  "ObjectValues_find lt gt m =
     (let n = lower_bound lt m
      in if n < length m \<and> \<not> gt (fst (m ! n)) then Some n else None)"

text \<open>The lookup with a key, through \<^verbatim>\<open>CZStringCompare::operator()(const CZString&, const CZString&)\<close>.\<close>

definition find_key :: "CZString \<Rightarrow> ObjectValues \<Rightarrow> nat option" where
  "find_key k m = ObjectValues_find (\<lambda>e. CZString_less e k) (\<lambda>e. CZString_less k e) m"

text \<open>
  The lookup with a \<^verbatim>\<open>std::string_view\<close>: the comparator builds a view of
  \<^verbatim>\<open>strlen(c_str())\<close> bytes of the key and compares the two views, byte by byte and then by
  length. On a key without a string \<^verbatim>\<open>strlen\<close> reads through a null pointer.
\<close>

definition string_view_less :: "string \<Rightarrow> string \<Rightarrow> bool" where
  "string_view_less s t = (strcmp s t < 0)"

definition view_of :: "CZString \<Rightarrow> string" where
  "view_of k = (case c_str k of Some s \<Rightarrow> s | None \<Rightarrow> [])"

definition find_view :: "string \<Rightarrow> ObjectValues \<Rightarrow> error + nat option" where
  "find_view s m =
     (if \<exists>e \<in> set m. c_str (fst e) = None then Inl undefined_behaviour
      else Inr (ObjectValues_find (\<lambda>e. string_view_less (view_of e) s)
                  (\<lambda>e. string_view_less s (view_of e)) m))"

text \<open>
  \<^verbatim>\<open>emplace(key, null)\<close>: the entry is built from the arguments, its key by the copy
  constructor of \<^verbatim>\<open>CZString\<close> and its node by the copy constructor of \<^verbatim>\<open>Value\<close>, and
  inserted at its place unless an equivalent key is there. So a duplicate-on-copy key is
  stored as an owned duplicate. An index argument is converted in place to the key
  \<^verbatim>\<open>CZString(index)\<close>, which is what the copy of that key is. The result is the store and
  the position of the entry the returned iterator addresses.
\<close>

definition ObjectValues_emplace :: "CZString \<Rightarrow> Value \<Rightarrow> ObjectValues \<Rightarrow> ObjectValues \<times> nat" where
  "ObjectValues_emplace k v m =
     (case find_key k m of
        Some n \<Rightarrow> (m, n)
      | None \<Rightarrow>
          (let n = length (takeWhile (\<lambda>e. \<not> CZString_less k (fst e)) m)
           in (take n m @ [(CZString_copy k, Value_copy v)] @ drop n m, n)))"

text \<open>\<^verbatim>\<open>erase(key)\<close>: the entry equivalent to the key, if any, is removed.\<close>

definition ObjectValues_erase :: "CZString \<Rightarrow> ObjectValues \<Rightarrow> ObjectValues" where
  "ObjectValues_erase k m =
     (case find_key k m of
        Some n \<Rightarrow> take n m @ drop (Suc n) m
      | None \<Rightarrow> m)"

subsection \<open>Size, lookup and mutating access\<close>

text \<open>\<^verbatim>\<open>Value::size\<close>: for an array the index of the last entry plus one, in \<^verbatim>\<open>ArrayIndex\<close>.\<close>

definition Value_size :: "Value \<Rightarrow> ArrayIndex" where
  "Value_size v =
     (case type v of
        arrayValue \<Rightarrow>
          (case map_of_holder (holder v) of
             [] \<Rightarrow> 0
           | e # es \<Rightarrow> index (fst (last (e # es))) + 1)
      | objectValue \<Rightarrow> of_nat (length (map_of_holder (holder v)))
      | _ \<Rightarrow> 0)"

definition isValidIndex :: "Value \<Rightarrow> ArrayIndex \<Rightarrow> bool" where
  "isValidIndex v i = (i < Value_size v)"

text \<open>\<^verbatim>\<open>Value::empty\<close>\<close>

definition Value_empty :: "Value \<Rightarrow> bool" where
  "Value_empty v = (if isNull v \<or> isArray v \<or> isObject v then Value_size v = 0 else False)"

text \<open>A node that has no map behind \<^verbatim>\<open>value_.map_\<close> cannot be searched.\<close>

definition has_map :: "Value \<Rightarrow> bool" where
  "has_map v = (case holder v of U_map m \<Rightarrow> True | _ \<Rightarrow> False)"

text \<open>
  \<^verbatim>\<open>Value::tryGet(ArrayIndex)\<close>: the position of the entry found, \<open>None\<close> for the null
  pointer. \<^verbatim>\<open>find(index)\<close> converts the index to a key and compares keys.
\<close>

definition tryGet_index :: "build \<Rightarrow> Value \<Rightarrow> ArrayIndex \<Rightarrow> error + nat option" where
  "tryGet_index b v i =
     (if JSONCPP_ASSERT_fails b (type v = nullValue \<or> type v = arrayValue) then Inl assertion_failure
      else if type v = nullValue then Inr None
      else if \<not> has_map v then Inl undefined_behaviour
      else Inr (find_key (CZString_of_index i) (map_of_holder (holder v))))"

text \<open>\<^verbatim>\<open>Value::tryGet(std::string_view)\<close>\<close>

definition tryGet_view :: "build \<Rightarrow> Value \<Rightarrow> string \<Rightarrow> error + nat option" where
  "tryGet_view b v s =
     (if JSONCPP_ASSERT_fails b (type v = nullValue \<or> type v = objectValue) then Inl assertion_failure
      else if type v = nullValue then Inr None
      else if \<not> has_map v then Inl undefined_behaviour
      else find_view s (map_of_holder (holder v)))"

text \<open>The node an entry position addresses, and a node with one entry replaced.\<close>

definition entry_at :: "Value \<Rightarrow> nat \<Rightarrow> Value" where
  "entry_at v n = snd (map_of_holder (holder v) ! n)"

definition with_entry :: "Value \<Rightarrow> nat \<Rightarrow> Value \<Rightarrow> Value" where
  "with_entry v n x =
     (let m = map_of_holder (holder v)
      in Value (type v) (U_map (m[n := (fst (m ! n), x)])) (allocated v))"

text \<open>\<^verbatim>\<open>Value::get(ArrayIndex)\<close>: the entry \<^verbatim>\<open>tryGet\<close> finds, which must exist.\<close>

definition get_index :: "build \<Rightarrow> Value \<Rightarrow> ArrayIndex \<Rightarrow> error + Value" where
  "get_index b v i =
     (case tryGet_index b v i of
        Inl e \<Rightarrow> Inl e
      | Inr None \<Rightarrow> (if JSONCPP_ASSERT_fails b False then Inl assertion_failure else Inl undefined_behaviour)
      | Inr (Some n) \<Rightarrow> Inr (entry_at v n))"

text \<open>
  \<^verbatim>\<open>Value::operator[](ArrayIndex)\<close>: a null node becomes an empty array by move
  assignment, and an index that is not found is emplaced with a copy of \<^verbatim>\<open>null\<close>. The
  result is the node afterwards and the position of the entry the returned reference
  addresses.
\<close>

definition subscript_index :: "build \<Rightarrow> Value \<Rightarrow> ArrayIndex \<Rightarrow> error + Value \<times> nat" where
  "subscript_index b v i =
     (if JSONCPP_ASSERT_fails b (type v = nullValue \<or> type v = arrayValue) then Inl assertion_failure
      else
        (let v1 = (if type v = nullValue
                   then fst (Value_move_assign (v, Value_of_type arrayValue)) else v)
         in case tryGet_index b v1 i of
              Inl e \<Rightarrow> Inl e
            | Inr (Some n) \<Rightarrow> Inr (v1, n)
            | Inr None \<Rightarrow>
                (case ObjectValues_emplace (CZString_of_index i) Value_null (map_of_holder (holder v1)) of
                   (m, n) \<Rightarrow> Inr (Value (type v1) (U_map m) (allocated v1), n))))"

text \<open>\<^verbatim>\<open>Value::append\<close>: \<^verbatim>\<open>return (*this)[size()] = value;\<close>\<close>

definition Value_append :: "build \<Rightarrow> Value \<Rightarrow> Value \<Rightarrow> error + Value" where
  "Value_append b v x =
     (case subscript_index b v (Value_size v) of
        Inl e \<Rightarrow> Inl e
      | Inr (v1, n) \<Rightarrow> Inr (with_entry v1 n (Value_assign (entry_at v1 n) x)))"

text \<open>\<^verbatim>\<open>Value::clear\<close>\<close>

definition Value_clear :: "build \<Rightarrow> Value \<Rightarrow> error + Value" where
  "Value_clear b v =
     (if JSONCPP_ASSERT_fails b (type v = nullValue \<or> type v = arrayValue \<or> type v = objectValue)
      then Inl assertion_failure
      else if type v = arrayValue \<or> type v = objectValue
      then (if has_map v then Inr (Value (type v) (U_map []) (allocated v)) else Inl undefined_behaviour)
      else Inr v)"

text \<open>
  The shrinking loop of \<^verbatim>\<open>Value::resize\<close>,
  \<^verbatim>\<open>for (index = newSize; index < oldSize; ++index) value_.map_->erase(index);\<close>
  over the indices as natural numbers below \<open>2 ^ 32\<close>.
\<close>

definition erase_from :: "nat \<Rightarrow> nat \<Rightarrow> ObjectValues \<Rightarrow> ObjectValues" where
  "erase_from newSize oldSize m =
     fold (\<lambda>i. ObjectValues_erase (CZString_of_index (of_nat i))) [newSize ..< oldSize] m"

text \<open>\<^verbatim>\<open>Value::resize\<close>, with its closing \<^verbatim>\<open>assert(size() == newSize)\<close>.\<close>

definition Value_resize :: "build \<Rightarrow> Value \<Rightarrow> ArrayIndex \<Rightarrow> error + Value" where
  "Value_resize b v newSize =
     (if JSONCPP_ASSERT_fails b (type v = nullValue \<or> type v = arrayValue) then Inl assertion_failure
      else
        (let v1 = (if type v = nullValue
                   then fst (Value_move_assign (v, Value_of_type arrayValue)) else v);
             oldSize = Value_size v1
         in if newSize = 0 then Value_clear b v1
            else if newSize > oldSize
            then (case subscript_index b v1 (newSize - 1) of
                    Inl e \<Rightarrow> Inl e
                  | Inr (v2, n) \<Rightarrow> Inr v2)
            else if \<not> has_map v1 then Inl undefined_behaviour
            else
              (let v2 = Value (type v1)
                          (U_map (erase_from (unat newSize) (unat oldSize) (map_of_holder (holder v1))))
                          (allocated v1)
               in if assert_fails b (Value_size v2 = newSize) then Inl assertion_failure
                  else Inr v2)))"

subsection \<open>Comparison\<close>

text \<open>
  A measure for the recursion of the comparison operators through the entries of a map.
\<close>

definition store_size :: "ObjectValues \<Rightarrow> nat" where
  "store_size m = size_list (\<lambda>p. size (snd p)) m"

lemma store_size_Nil: "store_size [] = 0"
  by (simp add: store_size_def)

lemma store_size_Cons: "store_size (p # m) = Suc (size (snd p) + store_size m)"
  by (simp add: store_size_def)

lemma store_size_le: "store_size m \<le> size_list (size_prod (\<lambda>x. 0) size) m"
  by (induction m) (auto simp: store_size_def)

lemma store_size_holder: "store_size (map_of_holder h) \<le> size h"
  using store_size_le by (cases h) (auto simp: store_size_def le_SucI)

lemma store_size_Value: "store_size (map_of_holder (holder x)) < size x"
  using store_size_holder [of "holder x"] by (cases x) simp

text \<open>
  The comparisons of two string payloads in \<^verbatim>\<open>operator<\<close> and \<^verbatim>\<open>operator==\<close>:
  \<^verbatim>\<open>(!a && b) || (b && a && strcmp(a, b) < 0)\<close> and
  \<^verbatim>\<open>(a == b) || (b && a && strcmp(a, b) == 0)\<close>, where two different pointers are equal
  only when both are null.
\<close>

definition string_less :: "string option \<Rightarrow> string option \<Rightarrow> bool" where
  "string_less a b =
     ((a = None \<and> b \<noteq> None) \<or> (b \<noteq> None \<and> a \<noteq> None \<and> strcmp (the a) (the b) < 0))"

definition string_equal :: "string option \<Rightarrow> string option \<Rightarrow> bool" where
  "string_equal a b =
     ((a = None \<and> b = None) \<or> (b \<noteq> None \<and> a \<noteq> None \<and> strcmp (the a) (the b) = 0))"

text \<open>\<^verbatim>\<open>int delta = int(value_.map_->size() - other.value_.map_->size());\<close>\<close>

definition count_delta :: "ObjectValues \<Rightarrow> ObjectValues \<Rightarrow> int" where
  "count_delta m n = sint (word_of_int (int (length m) - int (length n)) :: 32 word)"

text \<open>
  \<^verbatim>\<open>Value::operator<\<close>. The tags are subtracted first. Two containers compare the
  difference of their entry counts, cut to \<^verbatim>\<open>int\<close>, and then the maps; the comparison of
  two maps is the three-way lexicographic one, an entry comparing by its key and then by
  its node, each with \<^verbatim>\<open>a < b\<close> and \<^verbatim>\<open>b < a\<close>. \<open>ObjectValues_compare\<close> is negative, zero or
  positive.
\<close>

function Value_less :: "Value \<Rightarrow> Value \<Rightarrow> bool"
  and ObjectValues_compare :: "ObjectValues \<Rightarrow> ObjectValues \<Rightarrow> int" where
  "Value_less x y =
     (if ValueType_rank (type x) - ValueType_rank (type y) \<noteq> 0
      then ValueType_rank (type x) - ValueType_rank (type y) < 0
      else
        (case type x of
           nullValue \<Rightarrow> False
         | intValue \<Rightarrow> sint (int_of (holder x)) < sint (int_of (holder y))
         | uintValue \<Rightarrow> uint (int_of (holder x)) < uint (int_of (holder y))
         | realValue \<Rightarrow> double_less (real_of (holder x)) (real_of (holder y))
         | booleanValue \<Rightarrow> (\<not> bool_of (holder x) \<and> bool_of (holder y))
         | stringValue \<Rightarrow> string_less (string_of (holder x)) (string_of (holder y))
         | arrayValue \<Rightarrow>
             (if count_delta (map_of_holder (holder x)) (map_of_holder (holder y)) \<noteq> 0
              then count_delta (map_of_holder (holder x)) (map_of_holder (holder y)) < 0
              else ObjectValues_compare (map_of_holder (holder x)) (map_of_holder (holder y)) < 0)
         | objectValue \<Rightarrow>
             (if count_delta (map_of_holder (holder x)) (map_of_holder (holder y)) \<noteq> 0
              then count_delta (map_of_holder (holder x)) (map_of_holder (holder y)) < 0
              else ObjectValues_compare (map_of_holder (holder x)) (map_of_holder (holder y)) < 0)))"
| "ObjectValues_compare [] [] = 0"
| "ObjectValues_compare [] (q # ys) = - 1"
| "ObjectValues_compare (p # xs) [] = 1"
| "ObjectValues_compare (p # xs) (q # ys) =
     (if CZString_less (fst p) (fst q) then - 1
      else if CZString_less (fst q) (fst p) then 1
      else if Value_less (snd p) (snd q) then - 1
      else if Value_less (snd q) (snd p) then 1
      else ObjectValues_compare xs ys)"
  by pat_completeness auto
termination
proof (relation "measure (\<lambda>s. case s of
          Inl (x, y) \<Rightarrow> size x + size y
        | Inr (xs, ys) \<Rightarrow> store_size xs + store_size ys)", goal_cases)
  case 1
  show ?case by simp
next
  case (2 x y)
  show ?case using store_size_Value [of x] store_size_Value [of y] by simp
next
  case (3 x y)
  show ?case using store_size_Value [of x] store_size_Value [of y] by simp
next
  case (4 p xs q ys)
  show ?case by (simp add: store_size_Cons)
next
  case (5 p xs q ys)
  show ?case by (simp add: store_size_Cons)
next
  case (6 p xs q ys)
  show ?case by (simp add: store_size_Cons)
qed

declare Value_less.simps [simp del]

text \<open>\<^verbatim>\<open>operator<=\<close>, \<^verbatim>\<open>operator>=\<close> and \<^verbatim>\<open>operator>\<close>\<close>

definition Value_le :: "Value \<Rightarrow> Value \<Rightarrow> bool" where
  "Value_le x y = (\<not> Value_less y x)"

definition Value_ge :: "Value \<Rightarrow> Value \<Rightarrow> bool" where
  "Value_ge x y = (\<not> Value_less x y)"

definition Value_gt :: "Value \<Rightarrow> Value \<Rightarrow> bool" where
  "Value_gt x y = Value_less y x"

text \<open>
  \<^verbatim>\<open>Value::operator==\<close>. Two maps are equal when they have as many entries and the
  entries are equal in turn, keys by \<^verbatim>\<open>CZString::operator==\<close> and nodes by this operator.
\<close>

function Value_eq :: "Value \<Rightarrow> Value \<Rightarrow> bool"
  and ObjectValues_equal :: "ObjectValues \<Rightarrow> ObjectValues \<Rightarrow> bool" where
  "Value_eq x y =
     (if type x \<noteq> type y then False
      else
        (case type x of
           nullValue \<Rightarrow> True
         | intValue \<Rightarrow> int_of (holder x) = int_of (holder y)
         | uintValue \<Rightarrow> int_of (holder x) = int_of (holder y)
         | realValue \<Rightarrow> double_eq (real_of (holder x)) (real_of (holder y))
         | booleanValue \<Rightarrow> bool_of (holder x) = bool_of (holder y)
         | stringValue \<Rightarrow> string_equal (string_of (holder x)) (string_of (holder y))
         | arrayValue \<Rightarrow>
             (length (map_of_holder (holder x)) = length (map_of_holder (holder y))
              \<and> ObjectValues_equal (map_of_holder (holder x)) (map_of_holder (holder y)))
         | objectValue \<Rightarrow>
             (length (map_of_holder (holder x)) = length (map_of_holder (holder y))
              \<and> ObjectValues_equal (map_of_holder (holder x)) (map_of_holder (holder y)))))"
| "ObjectValues_equal [] [] = True"
| "ObjectValues_equal [] (q # ys) = False"
| "ObjectValues_equal (p # xs) [] = False"
| "ObjectValues_equal (p # xs) (q # ys) =
     (CZString_eq (fst p) (fst q) \<and> Value_eq (snd p) (snd q) \<and> ObjectValues_equal xs ys)"
  by pat_completeness auto
termination
proof (relation "measure (\<lambda>s. case s of
          Inl (x, y) \<Rightarrow> size x + size y
        | Inr (xs, ys) \<Rightarrow> store_size xs + store_size ys)", goal_cases)
  case 1
  show ?case by simp
next
  case (2 x y)
  show ?case using store_size_Value [of x] store_size_Value [of y] by simp
next
  case (3 x y)
  show ?case using store_size_Value [of x] store_size_Value [of y] by simp
next
  case (4 p xs q ys)
  show ?case by (simp add: store_size_Cons)
next
  case (5 p xs q ys)
  show ?case by (simp add: store_size_Cons)
qed

declare Value_eq.simps [simp del]

definition Value_ne :: "Value \<Rightarrow> Value \<Rightarrow> bool" where
  "Value_ne x y = (\<not> Value_eq x y)"

text \<open>\<^verbatim>\<open>Value::compare\<close>\<close>

definition Value_compare :: "Value \<Rightarrow> Value \<Rightarrow> int" where
  "Value_compare x y = (if Value_less x y then - 1 else if Value_gt x y then 1 else 0)"

text \<open>
  The scalar nodes are those of the six tags that are not containers, and a node holds NaN
  when it is a Real node whose payload is NaN.
\<close>

definition is_scalar :: "Value \<Rightarrow> bool" where
  "is_scalar v =
     (type v \<in> {nullValue, intValue, uintValue, realValue, stringValue, booleanValue})"

definition holds_NaN :: "Value \<Rightarrow> bool" where
  "holds_NaN v = (type v = realValue \<and> real_of (holder v) = NaN)"

subsection \<open>Conversions\<close>

text \<open>
  \<^verbatim>\<open>Value::asInt\<close>. The range checks are \<^verbatim>\<open>JSONCPP_ASSERT_MESSAGE\<close>, the refusal of a
  string or a container is \<^verbatim>\<open>JSONCPP_FAIL_MESSAGE\<close>; when the macros expand to nothing the
  narrowing is done all the same and the refusal falls through to the default. Narrowing
  a 64-bit integer gives its value modulo \<open>2 ^ 32\<close>; converting a \<^verbatim>\<open>double\<close> truncates it
  towards zero, and has no defined result when the truncated value is outside the range
  of \<^verbatim>\<open>int\<close> or the \<^verbatim>\<open>double\<close> is not finite.
\<close>

definition in_Int_range :: "double \<Rightarrow> bool" where
  "in_Int_range d = (double_le (double_of_int minInt) d \<and> double_le d (double_of_int maxInt))"

definition truncation_fits :: "double \<Rightarrow> bool" where
  "truncation_fits d =
     (case d of Finite q \<Rightarrow> minInt \<le> trunc q \<and> trunc q \<le> maxInt | _ \<Rightarrow> False)"

definition Value_asInt :: "build \<Rightarrow> Value \<Rightarrow> Json_Int \<Rightarrow> error + Json_Int" where
  "Value_asInt b v defaultValue =
     (case type v of
        nullValue \<Rightarrow> Inr defaultValue
      | intValue \<Rightarrow>
          (if JSONCPP_ASSERT_MESSAGE_fails b
                (minInt \<le> sint (int_of (holder v)) \<and> sint (int_of (holder v)) \<le> maxInt)
           then Inl (runtime_error ''unsigned integer out of signed int range'')
           else Inr (word_of_int (sint (int_of (holder v)))))
      | uintValue \<Rightarrow>
          (if JSONCPP_ASSERT_MESSAGE_fails b (uint (int_of (holder v)) \<le> maxInt)
           then Inl (runtime_error ''unsigned integer out of signed int range'')
           else Inr (word_of_int (uint (int_of (holder v)))))
      | realValue \<Rightarrow>
          (if JSONCPP_ASSERT_MESSAGE_fails b (in_Int_range (real_of (holder v)))
           then Inl (runtime_error ''Real out of signed integer range'')
           else if truncation_fits (real_of (holder v))
           then Inr (Int_of_double (real_of (holder v)))
           else Inl undefined_behaviour)
      | booleanValue \<Rightarrow> Inr (if bool_of (holder v) then 1 else 0)
      | _ \<Rightarrow>
          (if enable_asserts b then Inl (runtime_error ''Type is not convertible to int'')
           else Inr defaultValue))"

text \<open>\<^verbatim>\<open>Value::isConvertibleTo\<close>\<close>

definition isConvertibleTo :: "Value \<Rightarrow> ValueType \<Rightarrow> bool" where
  "isConvertibleTo v other =
     (case type v of
        nullValue \<Rightarrow> True
      | intValue \<Rightarrow>
          (other = nullValue \<and> int_of (holder v) = 0) \<or> other = intValue
          \<or> (other = uintValue \<and> 0 \<le> sint (int_of (holder v))) \<or> other = realValue
          \<or> other = stringValue \<or> other = booleanValue
      | uintValue \<Rightarrow>
          (other = nullValue \<and> int_of (holder v) = 0)
          \<or> (other = intValue \<and> uint (int_of (holder v)) \<le> maxInt) \<or> other = uintValue
          \<or> other = realValue \<or> other = stringValue \<or> other = booleanValue
      | realValue \<Rightarrow>
          (other = nullValue \<and> double_eq (real_of (holder v)) (Finite 0))
          \<or> (other = intValue \<and> double_le (double_of_int minInt) (real_of (holder v))
                \<and> double_le (real_of (holder v)) (double_of_int maxInt))
          \<or> (other = uintValue \<and> double_le (double_of_int 0) (real_of (holder v))
                \<and> double_le (real_of (holder v)) (double_of_int maxUInt))
          \<or> other = realValue \<or> other = stringValue \<or> other = booleanValue
      | booleanValue \<Rightarrow>
          (other = nullValue \<and> bool_of (holder v) = False) \<or> other = intValue
          \<or> other = uintValue \<or> other = realValue \<or> other = stringValue
          \<or> other = booleanValue
      | stringValue \<Rightarrow>
          other = stringValue
          \<or> (other = nullValue
                \<and> (string_of (holder v) = None \<or> string_of (holder v) = Some []))
      | arrayValue \<Rightarrow>
          other = arrayValue \<or> (other = nullValue \<and> map_of_holder (holder v) = [])
      | objectValue \<Rightarrow>
          other = objectValue \<or> (other = nullValue \<and> map_of_holder (holder v) = []))"

section \<open>Path expressions\<close>

datatype Kind = kindNone | kindIndex | kindKey

datatype PathArgument = PathArgument (key: string) (arg_index: ArrayIndex) (kind: Kind)

text \<open>The three constructors of \<^verbatim>\<open>PathArgument\<close>: default, from an index, from a string.\<close>

definition PathArgument_none :: PathArgument where
  "PathArgument_none = PathArgument [] 0 kindNone"

definition PathArgument_of_index :: "ArrayIndex \<Rightarrow> PathArgument" where
  "PathArgument_of_index i = PathArgument [] i kindIndex"

definition PathArgument_of_key :: "string \<Rightarrow> PathArgument" where
  "PathArgument_of_key s = PathArgument s 0 kindKey"

text \<open>
  \<^verbatim>\<open>Path::addPathInArg\<close>: the argument the iterator addresses is appended when there is
  one and it has the kind asked for. The iterator is passed by reference and is not
  advanced, neither here nor by the caller.
\<close>

definition addPathInArg :: "PathArgument list \<Rightarrow> Kind \<Rightarrow> PathArgument list \<Rightarrow> PathArgument list" where
  "addPathInArg itInArg k args =
     (case itInArg of
        [] \<Rightarrow> args
      | a # rest \<Rightarrow> (if kind a \<noteq> k then args else args @ [a]))"

text \<open>
  The digits of a literal index,
  \<^verbatim>\<open>for (; current != end && *current >= '0' && *current <= '9'; ++current) index = index * 10 + ArrayIndex(*current - '0');\<close>
  in 32-bit arithmetic: the index read and the characters left.
\<close>

definition is_digit :: "char \<Rightarrow> bool" where
  "is_digit c = ((48::nat) \<le> of_char c \<and> of_char c \<le> (57::nat))"

fun read_index :: "ArrayIndex \<Rightarrow> string \<Rightarrow> ArrayIndex \<times> string" where
  "read_index i [] = (i, [])"
| "read_index i (c # cs) =
     (if is_digit c then read_index (i * 10 + of_nat (of_char c - 48)) cs else (i, c # cs))"

text \<open>
  A name runs to the next character that \<^verbatim>\<open>strchr("[.", c)\<close> finds, which are the two
  characters of the string and the zero byte that ends it.
\<close>

definition ends_name :: "char \<Rightarrow> bool" where
  "ends_name c = (c = CHR ''['' \<or> c = CHR ''.'' \<or> of_char c = (0::nat))"

text \<open>
  The loop of \<^verbatim>\<open>Path::makePath\<close> over the characters from \<^verbatim>\<open>current\<close> to \<^verbatim>\<open>end\<close>; the
  character read at \<^verbatim>\<open>end\<close> is the terminator of \<^verbatim>\<open>c_str()\<close>. After a bracket placeholder
  the percent sign is still the current character, so that the test for the closing bracket
  fails on it and steps over it. A zero byte inside the string starts a name that takes
  no character, and the loop turns for ever: the value is \<open>None\<close>.
\<close>

partial_function (option) makePath_loop ::
  "PathArgument list \<Rightarrow> string \<Rightarrow> PathArgument list \<Rightarrow> PathArgument list option" where
  "makePath_loop itInArg current args =
     (case current of
        [] \<Rightarrow> Some args
      | c # cs \<Rightarrow>
          if c = CHR ''[''
          then
            (case cs of
               [] \<Rightarrow> Some (args @ [PathArgument_of_index 0])
             | d # ds \<Rightarrow>
                 if d = CHR ''%''
                 then makePath_loop itInArg ds (addPathInArg itInArg kindIndex args)
                 else
                   (case read_index 0 cs of
                      (i, rest) \<Rightarrow>
                        makePath_loop itInArg (case rest of [] \<Rightarrow> [] | r # rs \<Rightarrow> rs)
                          (args @ [PathArgument_of_index i])))
          else if c = CHR ''%'' then makePath_loop itInArg cs (addPathInArg itInArg kindKey args)
          else if c = CHR ''.'' then makePath_loop itInArg cs args
          else
            makePath_loop itInArg (dropWhile (\<lambda>x. \<not> ends_name x) current)
              (args @ [PathArgument_of_key (takeWhile (\<lambda>x. \<not> ends_name x) current)]))"

declare makePath_loop.simps [code]

text \<open>\<^verbatim>\<open>Path::Path\<close> and \<^verbatim>\<open>Path::makePath\<close>: the compiled steps \<^verbatim>\<open>args_\<close>.\<close>

definition makePath :: "string \<Rightarrow> PathArgument list \<Rightarrow> PathArgument list option" where
  "makePath path in_args = makePath_loop in_args path []"

definition Path ::
  "string \<Rightarrow> PathArgument \<Rightarrow> PathArgument \<Rightarrow> PathArgument \<Rightarrow> PathArgument \<Rightarrow> PathArgument
     \<Rightarrow> PathArgument list option" where
  "Path path a1 a2 a3 a4 a5 = makePath path [a1, a2, a3, a4, a5]"

text \<open>
  \<^verbatim>\<open>Path::resolve(const Value& root, const Value& defaultValue)\<close>. The node is \<open>None\<close>
  when the pointer addresses the static \<^verbatim>\<open>Value::null\<close>, which is what a failed lookup
  leaves; the function returns by value, a copy of the node or of the default.
\<close>

definition node_of :: "Value option \<Rightarrow> Value" where
  "node_of p = (case p of None \<Rightarrow> Value_null | Some v \<Rightarrow> v)"

fun resolve_loop :: "build \<Rightarrow> PathArgument list \<Rightarrow> Value option \<Rightarrow> Value \<Rightarrow> error + Value" where
  "resolve_loop b [] node defaultValue = Inr (Value_copy (node_of node))"
| "resolve_loop b (arg # args) node defaultValue =
     (if kind arg = kindIndex
      then
        (if \<not> isArray (node_of node) \<or> isValidIndex (node_of node) (arg_index arg)
         then Inr (Value_copy defaultValue)
         else
           (case tryGet_index b (node_of node) (arg_index arg) of
              Inl e \<Rightarrow> Inl e
            | Inr None \<Rightarrow> resolve_loop b args None defaultValue
            | Inr (Some n) \<Rightarrow> resolve_loop b args (Some (entry_at (node_of node) n)) defaultValue))
      else if kind arg = kindKey
      then
        (if \<not> isObject (node_of node) then Inr (Value_copy defaultValue)
         else
           (case tryGet_view b (node_of node) (key arg) of
              Inl e \<Rightarrow> Inl e
            | Inr None \<Rightarrow> Inr (Value_copy defaultValue)
            | Inr (Some n) \<Rightarrow> resolve_loop b args (Some (entry_at (node_of node) n)) defaultValue))
      else resolve_loop b args node defaultValue)"

definition Path_resolve :: "build \<Rightarrow> PathArgument list \<Rightarrow> Value \<Rightarrow> Value \<Rightarrow> error + Value" where
  "Path_resolve b args rootNode defaultValue = resolve_loop b args (Some rootNode) defaultValue"

section \<open>Properties\<close>

subsection \<open>Byte comparison\<close>

lemma strcmp_Cons_less:
  "(strcmp (x # xs) (y # ys) < 0)
     = ((of_char x :: nat) < of_char y \<or> (x = y \<and> strcmp xs ys < 0))"
proof -
  have "(of_char x :: nat) = of_char y \<longleftrightarrow> x = y"
    by (rule of_char_eq_iff)
  then show ?thesis
    by (cases "(of_char x :: nat) < of_char y"; cases "(of_char y :: nat) < of_char x")
      (auto simp: not_less order_antisym_conv)
qed

lemma strcmp_Cons_eq:
  "(strcmp (x # xs) (y # ys) = 0) = (x = y \<and> strcmp xs ys = 0)"
proof -
  have "(of_char x :: nat) = of_char y \<longleftrightarrow> x = y"
    by (rule of_char_eq_iff)
  then show ?thesis
    by (cases "(of_char x :: nat) < of_char y"; cases "(of_char y :: nat) < of_char x")
      (auto simp: not_less order_antisym_conv)
qed


lemma strcmp_Nil_less: "(strcmp [] t < 0) = (t \<noteq> [])" "\<not> strcmp s [] < 0"
  by (cases t; simp) (cases s; simp)

lemma strcmp_eq_0_iff: "(strcmp s t = 0) = (s = t)"
proof (induction s arbitrary: t)
  case Nil
  show ?case by (cases t) simp_all
next
  case (Cons x xs)
  show ?case
  proof (cases t)
    case Nil
    then show ?thesis by simp
  next
    case (Cons y ys)
    then show ?thesis
      using Cons.IH [of ys] by (simp only: strcmp_Cons_eq list.inject)
  qed
qed

lemma strcmp_total: "strcmp s t < 0 \<or> s = t \<or> strcmp t s < 0"
proof (induction s arbitrary: t)
  case Nil
  show ?case by (cases t) simp_all
next
  case (Cons x xs)
  show ?case
  proof (cases t)
    case Nil
    then show ?thesis by simp
  next
    case (Cons y ys)
    have "(of_char x :: nat) < of_char y \<or> (of_char y :: nat) < of_char x \<or> x = y"
      using of_char_eq_iff [of x y, where ?'a = nat] by linarith
    then show ?thesis
      using Cons.IH [of ys] Cons by (simp only: strcmp_Cons_less list.inject) blast
  qed
qed

lemma strcmp_asym: "strcmp s t < 0 \<Longrightarrow> \<not> strcmp t s < 0"
proof (induction s arbitrary: t)
  case Nil
  then show ?case by (simp add: strcmp_Nil_less)
next
  case (Cons x xs)
  show ?case
  proof (cases t)
    case Nil
    with Cons.prems show ?thesis by (simp add: strcmp_Nil_less)
  next
    case (Cons y ys)
    with Cons.prems Cons.IH [of ys] show ?thesis
      by (simp only: strcmp_Cons_less) (metis less_asym less_irrefl)
  qed
qed

lemma strcmp_trans: "strcmp s t < 0 \<Longrightarrow> strcmp t u < 0 \<Longrightarrow> strcmp s u < 0"
proof (induction s arbitrary: t u)
  case Nil
  then show ?case by (cases t; cases u) (simp_all add: strcmp_Nil_less)
next
  case (Cons x xs)
  from Cons.prems(1) obtain y ys where t: "t = y # ys"
    by (cases t) (simp_all add: strcmp_Nil_less)
  from Cons.prems(2) t obtain z zs where u: "u = z # zs"
    by (cases u) (simp_all add: strcmp_Nil_less)
  from Cons.prems t u Cons.IH [of ys zs] show ?case
    by (simp only: strcmp_Cons_less) (metis less_trans)
qed

lemma strcmp_irrefl: "\<not> strcmp s s < 0"
  using strcmp_eq_0_iff [of s s] by simp


subsection \<open>Keys\<close>

text \<open>
  Two keys that hold a string compare by their bytes, whatever their policies, and a key
  that holds a string never equals a key that holds none.
\<close>

lemma CZString_eq_names:
  "CZString_eq (CZString (Some s) p) (CZString (Some t) q) = (s = t)"
  by (simp add: CZString_eq_def strcmp_eq_0_iff)

lemma CZString_less_names:
  "CZString_less (CZString (Some s) p) (CZString (Some t) q) = (strcmp s t < 0)"
  by (simp add: CZString_less_def)

lemma CZString_index_name_differ:
  "\<not> CZString_eq (CZString None i) (CZString (Some t) q)"
  "\<not> CZString_eq (CZString (Some s) p) (CZString None j)"
  by (simp_all add: CZString_eq_def)

text \<open>Two indices are equal and neither is less, whatever their values.\<close>

lemma CZString_index_keys_equivalent:
  "CZString_eq (CZString_of_index i) (CZString_of_index j)"
  "\<not> CZString_less (CZString_of_index i) (CZString_of_index j)"
  by (simp_all add: CZString_eq_def CZString_less_def CZString_of_index_def)

text \<open>So the lookup of any index in a store of one index entry finds that entry.\<close>

lemma find_key_index_singleton:
  "find_key (CZString_of_index i) [(CZString_of_index j, v)] = Some 0"
  by (simp add: find_key_def ObjectValues_find_def lower_bound_def CZString_less_def
      CZString_of_index_def)

text \<open>
  C1. The keys of the indices 0 and 1: \<^verbatim>\<open>operator==\<close> answers true, and \<^verbatim>\<open>operator<\<close>
  answers false in both directions, where the claim has them unequal and 0 less than 1.
\<close>

theorem CZString_index_0_1:
  "CZString_eq (CZString_of_index 0) (CZString_of_index 1)
   \<and> \<not> CZString_less (CZString_of_index 0) (CZString_of_index 1)
   \<and> \<not> CZString_less (CZString_of_index 1) (CZString_of_index 0)"
  by (simp add: CZString_eq_def CZString_less_def CZString_of_index_def)

subsection \<open>Arrays\<close>

text \<open>
  C2. Appending 7 to a Null node gives an array of size 1. Appending 9 to that array
  leaves the size at 1 and replaces the entry at index 0, where the claim has size 2 and
  the entry at index 0 unchanged: the lookup of index 1 finds the entry of index 0.
\<close>

theorem append_twice:
  "Value_append checked (Value_of_type nullValue) (Value_of_Int64 7)
     = Inr (Value arrayValue (U_map [(CZString_of_index 0, Value_of_Int64 7)]) False)
   \<and> Value_size (Value arrayValue (U_map [(CZString_of_index 0, Value_of_Int64 7)]) False) = 1
   \<and> Value_append checked
        (Value arrayValue (U_map [(CZString_of_index 0, Value_of_Int64 7)]) False)
        (Value_of_Int64 9)
     = Inr (Value arrayValue (U_map [(CZString_of_index 0, Value_of_Int64 9)]) False)
   \<and> Value_size (Value arrayValue (U_map [(CZString_of_index 0, Value_of_Int64 9)]) False) = 1
   \<and> get_index checked
        (Value arrayValue (U_map [(CZString_of_index 0, Value_of_Int64 9)]) False) 0
     = Inr (Value_of_Int64 9)"
  by code_simp

text \<open>
  C3. \<^verbatim>\<open>resize\<close> on an Int node fails its precondition in the checked build. \<^verbatim>\<open>resize(5)\<close>
  on a Null node gives an array of size 5 with the one entry of index 4, and each of the
  indices 0 to 4 reads back as Null. \<^verbatim>\<open>resize(3)\<close> on that array erases the entry and
  leaves size 0, where the claim has size 3: the closing \<^verbatim>\<open>assert(size() == newSize)\<close>
  fails, and with \<^verbatim>\<open>NDEBUG\<close> the call returns the empty array.
\<close>

theorem resize_5_then_3:
  "Value_resize checked (Value_of_Int64 1) 5 = Inl assertion_failure
   \<and> Value_resize checked (Value_of_type nullValue) 5
     = Inr (Value arrayValue (U_map [(CZString_of_index 4, Value_of_type nullValue)]) False)
   \<and> Value_size (Value arrayValue (U_map [(CZString_of_index 4, Value_of_type nullValue)]) False) = 5
   \<and> map (get_index checked
             (Value arrayValue (U_map [(CZString_of_index 4, Value_of_type nullValue)]) False))
        [0, 1, 2, 3, 4]
     = [Inr Value_null, Inr Value_null, Inr Value_null, Inr Value_null, Inr Value_null]
   \<and> Value_resize checked
        (Value arrayValue (U_map [(CZString_of_index 4, Value_of_type nullValue)]) False) 3
     = Inl assertion_failure
   \<and> Value_resize \<lparr>enable_asserts = False, ndebug = True\<rparr>
        (Value arrayValue (U_map [(CZString_of_index 4, Value_of_type nullValue)]) False) 3
     = Inr (Value arrayValue (U_map []) False)
   \<and> Value_size (Value arrayValue (U_map []) False) = 0"
  by code_simp

subsection \<open>Paths\<close>

text \<open>
  C4. The path \<^verbatim>\<open>".a[%]"\<close> with the index argument 2 compiles to three steps: the name
  \<^verbatim>\<open>a\<close>, the index 2 and the name \<^verbatim>\<open>]\<close>. On a root whose member \<^verbatim>\<open>a\<close> is an array holding 7
  at index 2, the defaulted \<^verbatim>\<open>resolve\<close> returns the default, for these steps and for the
  two steps \<^verbatim>\<open>a\<close> and 2 alone, where the claim has it return the element: the index step
  returns the default when the index is valid.
\<close>

theorem resolve_a_2:
  "Path ''.a[%]'' (PathArgument_of_index 2) PathArgument_none PathArgument_none
       PathArgument_none PathArgument_none
     = Some [PathArgument_of_key ''a'', PathArgument_of_index 2, PathArgument_of_key '']'']
   \<and> Path_resolve checked
        [PathArgument_of_key ''a'', PathArgument_of_index 2, PathArgument_of_key '']'']
        (Value objectValue
          (U_map [(CZString_of_cstr ''a'' duplicate,
                   Value arrayValue (U_map [(CZString_of_index 2, Value_of_Int64 7)]) False)])
          False)
        (Value_of_Int64 0)
     = Inr (Value_of_Int64 0)
   \<and> Path_resolve checked [PathArgument_of_key ''a'', PathArgument_of_index 2]
        (Value objectValue
          (U_map [(CZString_of_cstr ''a'' duplicate,
                   Value arrayValue (U_map [(CZString_of_index 2, Value_of_Int64 7)]) False)])
          False)
        (Value_of_Int64 0)
     = Inr (Value_of_Int64 0)
   \<and> isValidIndex (Value arrayValue (U_map [(CZString_of_index 2, Value_of_Int64 7)]) False) 2
   \<and> get_index checked
        (Value arrayValue (U_map [(CZString_of_index 2, Value_of_Int64 7)]) False) 2
     = Inr (Value_of_Int64 7)"
  by code_simp

subsection \<open>Convertibility\<close>

text \<open>
  C5, as the code has it. A Null node converts to every tag. An Int node converts to
  Int, Real, String and Bool, to UInt exactly when it is not negative and to Null exactly
  when it is 0. A UInt node converts to UInt, Real, String and Bool, to Int exactly when
  it is at most \<open>2 ^ 31 - 1\<close> and to Null exactly when it is 0. A Real node converts to
  Real, String and Bool, to Int exactly when it is finite and within the 32-bit signed
  range, to UInt exactly when it is finite and within the 32-bit unsigned range, and to
  Null exactly when it is 0. A Bool node converts to Int, UInt, Real, String and Bool, and
  to Null exactly when it is false. A String node converts to String, and to Null exactly
  when it is absent or empty. An Array or Object node converts to its own tag, and to
  Null exactly when it is empty. No node converts to any other tag.
\<close>

theorem isConvertibleTo_table:
  "isConvertibleTo (Value nullValue h a) t
   \<and> isConvertibleTo (Value intValue (U_int i) a) t
       = (t \<in> {intValue, realValue, stringValue, booleanValue}
          \<or> (t = uintValue \<and> 0 \<le> sint i) \<or> (t = nullValue \<and> i = 0))
   \<and> isConvertibleTo (Value uintValue (U_int u) a) t
       = (t \<in> {uintValue, realValue, stringValue, booleanValue}
          \<or> (t = intValue \<and> uint u \<le> 2 ^ 31 - 1) \<or> (t = nullValue \<and> u = 0))
   \<and> isConvertibleTo (Value realValue (U_real d) a) t
       = (t \<in> {realValue, stringValue, booleanValue}
          \<or> (t = intValue \<and> (\<exists>q. d = Finite q \<and> - (2 ^ 31) \<le> q \<and> q \<le> 2 ^ 31 - 1))
          \<or> (t = uintValue \<and> (\<exists>q. d = Finite q \<and> 0 \<le> q \<and> q \<le> 2 ^ 32 - 1))
          \<or> (t = nullValue \<and> d = Finite 0))
   \<and> isConvertibleTo (Value booleanValue (U_bool c) a) t
       = (t \<in> {intValue, uintValue, realValue, stringValue, booleanValue}
          \<or> (t = nullValue \<and> c = False))
   \<and> isConvertibleTo (Value stringValue (U_string s) a) t
       = (t = stringValue \<or> (t = nullValue \<and> (s = None \<or> s = Some [])))
   \<and> isConvertibleTo (Value arrayValue (U_map m) a) t
       = (t = arrayValue \<or> (t = nullValue \<and> m = []))
   \<and> isConvertibleTo (Value objectValue (U_map m) a) t
       = (t = objectValue \<or> (t = nullValue \<and> m = []))"
proof -
  have r: "isConvertibleTo (Value realValue (U_real d) a) t
       = (t \<in> {realValue, stringValue, booleanValue}
          \<or> (t = intValue \<and> (\<exists>q. d = Finite q \<and> - (2 ^ 31) \<le> q \<and> q \<le> 2 ^ 31 - 1))
          \<or> (t = uintValue \<and> (\<exists>q. d = Finite q \<and> 0 \<le> q \<and> q \<le> 2 ^ 32 - 1))
          \<or> (t = nullValue \<and> d = Finite 0))"
    by (cases d)
      (auto simp: isConvertibleTo_def double_le_def double_eq_def double_of_int_def
         minInt_def maxInt_def maxUInt_def)
  have rest:
    "isConvertibleTo (Value nullValue h a) t"
    "isConvertibleTo (Value intValue (U_int i) a) t
       = (t \<in> {intValue, realValue, stringValue, booleanValue}
          \<or> (t = uintValue \<and> 0 \<le> sint i) \<or> (t = nullValue \<and> i = 0))"
    "isConvertibleTo (Value uintValue (U_int u) a) t
       = (t \<in> {uintValue, realValue, stringValue, booleanValue}
          \<or> (t = intValue \<and> uint u \<le> 2 ^ 31 - 1) \<or> (t = nullValue \<and> u = 0))"
    "isConvertibleTo (Value booleanValue (U_bool c) a) t
       = (t \<in> {intValue, uintValue, realValue, stringValue, booleanValue}
          \<or> (t = nullValue \<and> c = False))"
    "isConvertibleTo (Value stringValue (U_string s) a) t
       = (t = stringValue \<or> (t = nullValue \<and> (s = None \<or> s = Some [])))"
    "isConvertibleTo (Value arrayValue (U_map m) a) t
       = (t = arrayValue \<or> (t = nullValue \<and> m = []))"
    "isConvertibleTo (Value objectValue (U_map m) a) t
       = (t = objectValue \<or> (t = nullValue \<and> m = []))"
    by (auto simp: isConvertibleTo_def maxInt_def)
  from r rest show ?thesis by simp
qed



text \<open>The claim as stated fails on the Int node holding -1, which does not convert to UInt.\<close>

theorem isConvertibleTo_counterexample:
  "\<not> isConvertibleTo (Value_of_Int64 (- 1)) uintValue"
  by (simp add: isConvertibleTo_def Value_of_Int64_def)


subsection \<open>Move\<close>

text \<open>
  C6, as the code has it. Move construction gives the new node the tag and the payload
  of the source and leaves the source Null. Move assignment between two distinct nodes
  exchanges tag and payload: the destination gets those of the source, and the source
  gets those the destination had, so that it is Null exactly when the destination was.
\<close>

theorem move_transfers:
  "type (fst (Value_move src)) = type src
   \<and> holder (fst (Value_move src)) = holder src
   \<and> isNull (snd (Value_move src))
   \<and> holder (snd (Value_move src)) = holder (Value_of_type nullValue)
   \<and> Value_eq (snd (Value_move src)) Value_null
   \<and> type (fst (Value_move_assign (dst, src))) = type src
   \<and> holder (fst (Value_move_assign (dst, src))) = holder src
   \<and> type (snd (Value_move_assign (dst, src))) = type dst
   \<and> holder (snd (Value_move_assign (dst, src))) = holder dst
   \<and> isNull (snd (Value_move_assign (dst, src))) = isNull dst"
  by (simp add: Value_move_def Value_move_assign_def Value_swap_def isNull_def
      Value_eq.simps Value_null_def)



text \<open>The claim as stated fails for the move assignment of an Int node to an Int node.\<close>

theorem move_counterexample:
  "\<not> isNull (snd (Value_move_assign (Value_of_Int64 7, Value_of_Int64 5)))"
  by (simp add: Value_move_assign_def Value_swap_def Value_of_Int64_def isNull_def)


subsection \<open>Copy\<close>

lemma key_content_copy: "key_content (CZString_copy k) = key_content k"
  by (cases k) (auto simp: key_content_def CZString_copy_def duplicateStringValue_def)

lemma key_settled_copy: "key_settled (CZString_copy k)"
  by (cases k) (auto simp: key_settled_def CZString_copy_def)

lemma content_scalar:
  "holds t h \<Longrightarrow> t \<noteq> arrayValue \<Longrightarrow> t \<noteq> objectValue
     \<Longrightarrow> content (Value t h a) = Value t h False"
  by (cases h; cases t) simp_all

lemma strings_owned_scalar:
  "holds t h \<Longrightarrow> t \<noteq> stringValue \<Longrightarrow> t \<noteq> arrayValue \<Longrightarrow> t \<noteq> objectValue
     \<Longrightarrow> strings_owned (Value t h a)"
  by (cases h; cases t) simp_all

lemma copy_content: "well_tagged v \<Longrightarrow> content (Value_copy v) = content v"
proof (induction v rule: Value_copy.induct)
  case (1 h a)
  then show ?case by (cases h) (auto simp: duplicateStringValue_def split: option.splits)
next
  case (2 m a)
  then show ?case by (auto simp: list_all_iff key_content_copy)
next
  case (3 m a)
  then show ?case by (auto simp: list_all_iff key_content_copy)
qed (simp_all add: content_scalar)

lemma copy_owned: "well_tagged v \<Longrightarrow> strings_owned (Value_copy v)"
proof (induction v rule: Value_copy.induct)
  case (1 h a)
  then show ?case by (cases h) (auto simp: duplicateStringValue_def split: option.splits)
next
  case (2 m a)
  then show ?case by (auto simp: list_all_iff key_settled_copy)
next
  case (3 m a)
  then show ?case by (auto simp: list_all_iff key_settled_copy)
qed (simp_all add: strings_owned_scalar)

lemma copy_well_tagged: "well_tagged v \<Longrightarrow> well_tagged (Value_copy v)"
proof (induction v rule: Value_copy.induct)
  case (1 h a)
  then show ?case by (cases h) (auto simp: duplicateStringValue_def split: option.splits)
next
  case (2 m a)
  then show ?case by (auto simp: list_all_iff)
next
  case (3 m a)
  then show ?case by (auto simp: list_all_iff)
qed simp_all


lemma is_key_copy_CZString_copy: "is_key_copy k (CZString_copy k)"
  by (cases k) (auto simp: is_key_copy_def CZString_copy_def duplicateStringValue_def)

lemma is_key_copy_unique: "is_key_copy k c \<Longrightarrow> c = CZString_copy k"
  by (cases k; cases c) (auto simp: is_key_copy_def CZString_copy_def duplicateStringValue_def)

lemma is_deep_copy_scalar_iff:
  "holds t h \<Longrightarrow> t \<noteq> stringValue \<Longrightarrow> t \<noteq> arrayValue \<Longrightarrow> t \<noteq> objectValue
     \<Longrightarrow> is_deep_copy (Value t h a) c = (c = Value t h False)"
  by (cases h; cases t) simp_all

lemma copy_is_deep_copy: "well_tagged v \<Longrightarrow> is_deep_copy v (Value_copy v)"
proof (induction v rule: Value_copy.induct)
  case (1 h a)
  then show ?case by (cases h) (auto simp: duplicateStringValue_def split: option.splits)
next
  case (2 m a)
  then show ?case
    by (auto simp: list_all_iff list_all2_map2 is_key_copy_CZString_copy
        intro!: list.rel_refl_strong)
next
  case (3 m a)
  then show ?case
    by (auto simp: list_all_iff list_all2_map2 is_key_copy_CZString_copy
        intro!: list.rel_refl_strong)
qed (simp_all add: is_deep_copy_scalar_iff)

lemma list_all2_is_map:
  "list_all2 (\<lambda>e d. d = f e) m n \<Longrightarrow> n = map f m"
  by (induction m n rule: list_all2_induct) simp_all

lemma deep_copy_entries:
  assumes "\<And>e d. e \<in> set m \<Longrightarrow> is_deep_copy (snd e) d \<Longrightarrow> d = Value_copy (snd e)"
    and "list_all2 (\<lambda>e d. is_key_copy (fst e) (fst d) \<and> is_deep_copy (snd e) (snd d)) m n"
  shows "n = map (\<lambda>(k, v). (CZString_copy k, Value_copy v)) m"
proof -
  have "list_all2 (\<lambda>e d. d = (\<lambda>(k, v). (CZString_copy k, Value_copy v)) e) m n"
  proof (rule list.rel_mono_strong [OF assms(2)], goal_cases)
    case (1 e d)
    then have "fst d = CZString_copy (fst e)"
      using is_key_copy_unique by blast
    moreover from 1 have "snd d = Value_copy (snd e)"
      using assms(1) by blast
    ultimately show ?case
      by (simp add: case_prod_beta prod_eq_iff)
  qed
  then show ?thesis by (rule list_all2_is_map)
qed

lemma deep_copy_unique: "well_tagged v \<Longrightarrow> is_deep_copy v c \<Longrightarrow> c = Value_copy v"
proof (induction v arbitrary: c rule: Value_copy.induct)
  case (1 h a)
  then show ?case by (cases h) (auto simp: duplicateStringValue_def split: option.splits)
next
  case (2 m a)
  from 2(3) obtain n where n: "holder c = U_map n"
    and r: "list_all2 (\<lambda>e d. is_key_copy (fst e) (fst d) \<and> is_deep_copy (snd e) (snd d)) m n"
    by (auto split: ValueHolder.splits)
  from 2(1,2) r have "n = map (\<lambda>(k, v). (CZString_copy k, Value_copy v)) m"
    by (intro deep_copy_entries) (auto simp: list_all_iff)
  with 2(3) n show ?case by (cases c) simp
next
  case (3 m a)
  from 3(3) obtain n where n: "holder c = U_map n"
    and r: "list_all2 (\<lambda>e d. is_key_copy (fst e) (fst d) \<and> is_deep_copy (snd e) (snd d)) m n"
    by (auto split: ValueHolder.splits)
  from 3(1,2) r have "n = map (\<lambda>(k, v). (CZString_copy k, Value_copy v)) m"
    by (intro deep_copy_entries) (auto simp: list_all_iff)
  with 3(3) n show ?case by (cases c) simp
qed (simp_all add: is_deep_copy_scalar_iff)

lemma copy_entries:
  "well_tagged v \<Longrightarrow>
     map_of_holder (holder (Value_copy v))
       = map (\<lambda>e. (CZString_copy (fst e), Value_copy (snd e))) (map_of_holder (holder v))"
proof (induction v rule: Value_copy.induct)
  case (1 h a)
  then show ?case by (cases h) (auto split: option.splits)
qed (auto simp: case_prod_beta elim: holds.elims)

text \<open>
  C7, as the code has it. The copy of a well-tagged node is its deep copy, and nothing
  else is: it has the same tag and the same content at every depth; every string payload
  that is not null is duplicated and owned, whether the original owned or borrowed it;
  the entries of a container are, in order, the copies of its keys with the copies of its
  nodes; an index key is copied as it is, a no-duplication name stays borrowed, and a
  duplicate or duplicate-on-copy name becomes an owned duplicate.
\<close>

theorem Value_copy_deep:
  assumes "well_tagged v"
  shows
    "content (Value_copy v) = content v
     \<and> strings_owned (Value_copy v)
     \<and> well_tagged (Value_copy v)
     \<and> type (Value_copy v) = type v
     \<and> is_deep_copy v (Value_copy v)
     \<and> is_deep_copy v c = (c = Value_copy v)
     \<and> map_of_holder (holder (Value_copy v))
         = map (\<lambda>e. (CZString_copy (fst e), Value_copy (snd e))) (map_of_holder (holder v))
     \<and> is_key_copy k (CZString_copy k)
     \<and> Value_copy (Value stringValue (U_string (Some s)) a)
         = Value stringValue (U_string (Some s)) True
     \<and> CZString_copy (CZString None i) = CZString None i
     \<and> CZString_copy (CZString (Some s) noDuplication) = CZString (Some s) noDuplication
     \<and> CZString_copy (CZString (Some s) duplicate) = CZString (Some s) duplicate
     \<and> CZString_copy (CZString (Some s) duplicateOnCopy) = CZString (Some s) duplicate"
proof -
  have t: "type (Value_copy v) = type v"
    by (induction v rule: Value_copy.induct) (simp_all split: option.split)
  have k: "CZString_copy (CZString None i) = CZString None i"
    "CZString_copy (CZString (Some s) noDuplication) = CZString (Some s) noDuplication"
    "CZString_copy (CZString (Some s) duplicate) = CZString (Some s) duplicate"
    "CZString_copy (CZString (Some s) duplicateOnCopy) = CZString (Some s) duplicate"
    by (simp_all add: CZString_copy_def duplicateStringValue_def noDuplication_def
        duplicate_def duplicateOnCopy_def)
  have p: "Value_copy (Value stringValue (U_string (Some s)) a)
         = Value stringValue (U_string (Some s)) True"
    by (simp add: duplicateStringValue_def)
  have d: "is_deep_copy v c = (c = Value_copy v)"
    using assms copy_is_deep_copy [of v] deep_copy_unique [of v c] by blast
  from assms t k p d show ?thesis
    by (simp add: copy_content copy_owned copy_well_tagged copy_is_deep_copy copy_entries
        is_key_copy_CZString_copy)
qed

text \<open>
  An object as indexing by a static string and by a string view leave it: the name \<^verbatim>\<open>a\<close>
  is borrowed and its node borrows the string \<^verbatim>\<open>x\<close>, the name \<^verbatim>\<open>k\<close> is an owned duplicate.
  In the copy the name \<^verbatim>\<open>a\<close> is still borrowed and the string \<^verbatim>\<open>x\<close> is owned.
\<close>

theorem Value_copy_deep_witness:
  "well_tagged
     (Value objectValue
        (U_map [(CZString_of_cstr ''a'' noDuplication, Value_of_StaticString ''x''),
                (CZString_of_cstr ''k'' duplicate, Value_of_Int64 1)]) False)
   \<and> is_deep_copy
       (Value objectValue
          (U_map [(CZString_of_cstr ''a'' noDuplication, Value_of_StaticString ''x''),
                  (CZString_of_cstr ''k'' duplicate, Value_of_Int64 1)]) False)
       (Value objectValue
          (U_map [(CZString_of_cstr ''a'' noDuplication, Value_of_cstr ''x''),
                  (CZString_of_cstr ''k'' duplicate, Value_of_Int64 1)]) False)
   \<and> Value_copy
       (Value objectValue
          (U_map [(CZString_of_cstr ''a'' noDuplication, Value_of_StaticString ''x''),
                  (CZString_of_cstr ''k'' duplicate, Value_of_Int64 1)]) False)
       = Value objectValue
          (U_map [(CZString_of_cstr ''a'' noDuplication, Value_of_cstr ''x''),
                  (CZString_of_cstr ''k'' duplicate, Value_of_Int64 1)]) False
   \<and> strings_owned
       (Value objectValue
          (U_map [(CZString_of_cstr ''a'' noDuplication, Value_of_cstr ''x''),
                  (CZString_of_cstr ''k'' duplicate, Value_of_Int64 1)]) False)
   \<and> \<not> strings_owned
       (Value objectValue
          (U_map [(CZString_of_cstr ''a'' noDuplication, Value_of_StaticString ''x''),
                  (CZString_of_cstr ''k'' duplicate, Value_of_Int64 1)]) False)"
proof -
  let ?v = "Value objectValue
        (U_map [(CZString_of_cstr ''a'' noDuplication, Value_of_StaticString ''x''),
                (CZString_of_cstr ''k'' duplicate, Value_of_Int64 1)]) False"
  let ?c = "Value objectValue
        (U_map [(CZString_of_cstr ''a'' noDuplication, Value_of_cstr ''x''),
                (CZString_of_cstr ''k'' duplicate, Value_of_Int64 1)]) False"
  have w: "well_tagged ?v"
    by (simp add: Value_of_StaticString_def Value_of_Int64_def)
  have n: "\<not> strings_owned ?v"
    by (simp add: Value_of_StaticString_def)
  have e: "Value_copy ?v = ?c"
    by (simp add: Value_of_StaticString_def Value_of_cstr_def Value_of_Int64_def
        CZString_of_cstr_def CZString_copy_def duplicateStringValue_def noDuplication_def
        duplicate_def)
  from Value_copy_deep [OF w, of ?c] w n e show ?thesis by simp
qed

text \<open>
  The claim as stated fails on a node built from a static string: the node borrows the
  string, and its copy owns a duplicate.
\<close>

theorem Value_copy_counterexample:
  "\<not> allocated (Value_of_StaticString ''x'')
   \<and> allocated (Value_copy (Value_of_StaticString ''x''))
   \<and> Value_copy (Value_of_StaticString ''x'') = Value_of_cstr ''x''"
  by (simp add: Value_of_StaticString_def Value_of_cstr_def duplicateStringValue_def)

subsection \<open>Ordering\<close>

lemma ValueType_rank_inj: "(ValueType_rank s = ValueType_rank t) = (s = t)"
  by (cases s; cases t) simp_all

lemma Value_less_mixed:
  assumes "type x \<noteq> type y"
  shows "Value_less x y = (ValueType_rank (type x) < ValueType_rank (type y))"
  using assms by (subst Value_less.simps) (simp add: ValueType_rank_inj)

lemma Value_eq_mixed: "type x \<noteq> type y \<Longrightarrow> \<not> Value_eq x y"
  by (subst Value_eq.simps) simp

lemma Value_less_scalar:
  assumes "type x = type y" and "is_scalar x"
  shows "Value_less x y =
    (case type x of
       nullValue \<Rightarrow> False
     | intValue \<Rightarrow> sint (int_of (holder x)) < sint (int_of (holder y))
     | uintValue \<Rightarrow> uint (int_of (holder x)) < uint (int_of (holder y))
     | realValue \<Rightarrow> double_less (real_of (holder x)) (real_of (holder y))
     | booleanValue \<Rightarrow> (\<not> bool_of (holder x) \<and> bool_of (holder y))
     | stringValue \<Rightarrow> string_less (string_of (holder x)) (string_of (holder y))
     | _ \<Rightarrow> False)"
  using assms by (subst Value_less.simps) (auto simp: is_scalar_def split: ValueType.split)

lemma Value_eq_scalar:
  assumes "type x = type y" and "is_scalar x"
  shows "Value_eq x y =
    (case type x of
       nullValue \<Rightarrow> True
     | intValue \<Rightarrow> int_of (holder x) = int_of (holder y)
     | uintValue \<Rightarrow> int_of (holder x) = int_of (holder y)
     | realValue \<Rightarrow> double_eq (real_of (holder x)) (real_of (holder y))
     | booleanValue \<Rightarrow> bool_of (holder x) = bool_of (holder y)
     | stringValue \<Rightarrow> string_equal (string_of (holder x)) (string_of (holder y))
     | _ \<Rightarrow> False)"
  using assms by (subst Value_eq.simps) (auto simp: is_scalar_def split: ValueType.split)

lemma double_less_irrefl: "\<not> double_less d d"
  by (cases d) simp_all

lemma double_less_trans: "double_less a b \<Longrightarrow> double_less b c \<Longrightarrow> double_less a c"
  by (cases a; cases b; cases c) simp_all

lemma double_eq_iff:
  "a \<noteq> NaN \<Longrightarrow> b \<noteq> NaN \<Longrightarrow> double_eq a b = (\<not> double_less a b \<and> \<not> double_less b a)"
  by (cases a; cases b) (auto simp: double_eq_def)

lemma strcmp_eq_iff_not_less: "(strcmp s t = 0) = (\<not> strcmp s t < 0 \<and> \<not> strcmp t s < 0)"
  using strcmp_total [of s t] strcmp_irrefl [of s] strcmp_eq_0_iff [of s t] by blast

lemma string_less_irrefl: "\<not> string_less a a"
  by (cases a) (simp_all add: string_less_def strcmp_irrefl)

lemma string_less_trans: "string_less a b \<Longrightarrow> string_less b c \<Longrightarrow> string_less a c"
  by (cases a; cases b; cases c) (auto simp: string_less_def dest: strcmp_trans)

lemma string_equal_iff: "string_equal a b = (\<not> string_less a b \<and> \<not> string_less b a)"
  by (cases a; cases b) (simp_all add: string_less_def string_equal_def strcmp_eq_iff_not_less)

lemma sint_eq_iff_64: "(sint (a :: 64 word) = sint b) = (a = b)"
  by (rule word_eq_iff_signed [symmetric])

lemma uint_eq_iff_64: "(uint (a :: 64 word) = uint b) = (a = b)"
  by (rule word_eq_iff_unsigned [symmetric])


lemma scalar_irrefl: "is_scalar x \<Longrightarrow> \<not> Value_less x x"
  by (cases "type x")
    (simp_all add: Value_less_scalar double_less_irrefl string_less_irrefl)

lemma scalar_trans_same:
  assumes "is_scalar x" and "type x = type y" and "type y = type z"
    and "Value_less x y" and "Value_less y z"
  shows "Value_less x z"
proof -
  have sy: "is_scalar y" using assms(1,2) by (simp add: is_scalar_def)
  have xz: "type x = type z" using assms(2,3) by simp
  show ?thesis
  proof (cases "type x")
    case stringValue
    then show ?thesis
      using assms sy xz
        string_less_trans [of "string_of (holder x)" "string_of (holder y)" "string_of (holder z)"]
      by (simp add: Value_less_scalar)
  next
    case realValue
    then show ?thesis
      using assms sy xz
        double_less_trans [of "real_of (holder x)" "real_of (holder y)" "real_of (holder z)"]
      by (simp add: Value_less_scalar)
  next
    case intValue
    then show ?thesis using assms sy xz by (simp add: Value_less_scalar)
  next
    case uintValue
    then show ?thesis using assms sy xz by (simp add: Value_less_scalar)
  next
    case booleanValue
    then show ?thesis using assms sy xz by (simp add: Value_less_scalar)
  next
    case nullValue
    then show ?thesis using assms sy xz by (simp add: Value_less_scalar)
  next
    case arrayValue
    then show ?thesis using assms(1) by (simp add: is_scalar_def)
  next
    case objectValue
    then show ?thesis using assms(1) by (simp add: is_scalar_def)
  qed
qed

lemma scalar_trans:
  assumes "is_scalar x" and "Value_less x y" and "Value_less y z"
  shows "Value_less x z"
proof (cases "type x = type y")
  case xy: True
  show ?thesis
  proof (cases "type y = type z")
    case True
    with xy assms show ?thesis by (blast intro: scalar_trans_same)
  next
    case False
    with xy assms show ?thesis by (simp add: Value_less_mixed)
  qed
next
  case xy: False
  show ?thesis
  proof (cases "type y = type z")
    case True
    with xy assms show ?thesis by (simp add: Value_less_mixed)
  next
    case False
    with xy assms have r: "ValueType_rank (type x) < ValueType_rank (type z)"
      by (simp add: Value_less_mixed)
    then have "type x \<noteq> type z" by auto
    with r show ?thesis by (simp add: Value_less_mixed)
  qed
qed

lemma scalar_eq_iff:
  assumes "is_scalar x" and "\<not> holds_NaN x" and "\<not> holds_NaN y"
  shows "Value_eq x y = (\<not> Value_less x y \<and> \<not> Value_less y x)"
proof (cases "type x = type y")
  case False
  then have "ValueType_rank (type x) \<noteq> ValueType_rank (type y)"
    by (simp add: ValueType_rank_inj)
  with False show ?thesis
    using Value_less_mixed [of x y] Value_less_mixed [of y x] Value_eq_mixed [of x y]
    by auto
next
  case True
  then have sy: "is_scalar y" and yx: "type y = type x"
    using assms(1) by (simp_all add: is_scalar_def)
  show ?thesis
  proof (cases "type x")
    case stringValue
    with True sy yx assms(1) show ?thesis
      by (simp add: Value_less_scalar Value_eq_scalar string_equal_iff)
  next
    case realValue
    with True sy yx assms show ?thesis
      using double_eq_iff [of "real_of (holder x)" "real_of (holder y)"]
      by (simp add: Value_less_scalar Value_eq_scalar holds_NaN_def)
  next
    case intValue
    with True sy yx assms(1) show ?thesis
      using sint_eq_iff_64 [of "int_of (holder x)" "int_of (holder y)"]
      by (simp add: Value_less_scalar Value_eq_scalar) linarith
  next
    case uintValue
    with True sy yx assms(1) show ?thesis
      using uint_eq_iff_64 [of "int_of (holder x)" "int_of (holder y)"]
      by (simp add: Value_less_scalar Value_eq_scalar) linarith
  next
    case booleanValue
    with True sy yx assms(1) show ?thesis
      by (simp add: Value_less_scalar Value_eq_scalar) blast
  next
    case nullValue
    with True sy yx assms(1) show ?thesis
      by (simp add: Value_less_scalar Value_eq_scalar)
  next
    case arrayValue
    then show ?thesis using assms(1) by (simp add: is_scalar_def)
  next
    case objectValue
    then show ?thesis using assms(1) by (simp add: is_scalar_def)
  qed
qed


text \<open>
  C8, as the code has it. Between two nodes of different tags \<^verbatim>\<open><\<close> is the order of the
  tags, Null, Int, UInt, Real, String, Bool, Array, Object, whatever the payloads. On the
  scalar nodes that do not hold NaN, \<^verbatim>\<open><\<close> is irreflexive, transitive and total, two nodes
  are \<^verbatim>\<open>==\<close> exactly when neither is less than the other, and \<^verbatim>\<open>!=\<close>, \<^verbatim>\<open><=\<close>, \<^verbatim>\<open>>=\<close>, \<^verbatim>\<open>>\<close>
  and \<^verbatim>\<open>compare\<close> agree with \<^verbatim>\<open><\<close>.
\<close>

theorem Value_order:
  "(type x \<noteq> type y \<longrightarrow>
      Value_less x y = (ValueType_rank (type x) < ValueType_rank (type y)))
   \<and> map ValueType_rank
        [nullValue, intValue, uintValue, realValue, stringValue, booleanValue, arrayValue,
         objectValue]
       = [0, 1, 2, 3, 4, 5, 6, 7]
   \<and> (is_scalar x \<and> is_scalar y \<and> is_scalar z
        \<and> \<not> holds_NaN x \<and> \<not> holds_NaN y \<and> \<not> holds_NaN z \<longrightarrow>
          \<not> Value_less x x
        \<and> (Value_less x y \<and> Value_less y z \<longrightarrow> Value_less x z)
        \<and> (Value_less x y \<or> Value_eq x y \<or> Value_less y x)
        \<and> Value_eq x y = (\<not> Value_less x y \<and> \<not> Value_less y x)
        \<and> Value_ne x y = (Value_less x y \<or> Value_less y x)
        \<and> Value_le x y = (\<not> Value_less y x)
        \<and> Value_le x y = (Value_less x y \<or> Value_eq x y)
        \<and> Value_ge x y = (\<not> Value_less x y)
        \<and> Value_ge x y = (Value_less y x \<or> Value_eq x y)
        \<and> Value_gt x y = Value_less y x
        \<and> Value_compare x y
            = (if Value_less x y then - 1 else if Value_eq x y then 0 else 1))"
proof -
  have mixed: "type x \<noteq> type y \<longrightarrow>
      Value_less x y = (ValueType_rank (type x) < ValueType_rank (type y))"
    by (simp add: Value_less_mixed)
  have ranks: "map ValueType_rank
        [nullValue, intValue, uintValue, realValue, stringValue, booleanValue, arrayValue,
         objectValue]
       = [0, 1, 2, 3, 4, 5, 6, 7]"
    by simp
  have scalars: "\<not> Value_less x x
        \<and> (Value_less x y \<and> Value_less y z \<longrightarrow> Value_less x z)
        \<and> (Value_less x y \<or> Value_eq x y \<or> Value_less y x)
        \<and> Value_eq x y = (\<not> Value_less x y \<and> \<not> Value_less y x)
        \<and> Value_ne x y = (Value_less x y \<or> Value_less y x)
        \<and> Value_le x y = (\<not> Value_less y x)
        \<and> Value_le x y = (Value_less x y \<or> Value_eq x y)
        \<and> Value_ge x y = (\<not> Value_less x y)
        \<and> Value_ge x y = (Value_less y x \<or> Value_eq x y)
        \<and> Value_gt x y = Value_less y x
        \<and> Value_compare x y
            = (if Value_less x y then - 1 else if Value_eq x y then 0 else 1)"
    if h: "is_scalar x" "is_scalar y" "\<not> holds_NaN x" "\<not> holds_NaN y"
  proof -
    have irr: "\<not> Value_less x x"
      using h(1) by (rule scalar_irrefl)
    have tr: "Value_less x y \<and> Value_less y z \<longrightarrow> Value_less x z"
      using h(1) scalar_trans [of x y z] by blast
    have eq: "Value_eq x y = (\<not> Value_less x y \<and> \<not> Value_less y x)"
      using h by (intro scalar_eq_iff)
    have asym: "Value_less x y \<longrightarrow> \<not> Value_less y x"
      using h(1) irr scalar_trans [of x y x] by blast
    show ?thesis
      using irr tr eq asym
      by (simp add: Value_ne_def Value_le_def Value_ge_def Value_gt_def Value_compare_def)
  qed
  from mixed ranks scalars show ?thesis by blast
qed


theorem Value_order_witness:
  "is_scalar (Value_of_Int64 1) \<and> is_scalar (Value_of_Int64 2)
   \<and> is_scalar (Value_of_double (Finite 0))
   \<and> \<not> holds_NaN (Value_of_Int64 1) \<and> \<not> holds_NaN (Value_of_Int64 2)
   \<and> \<not> holds_NaN (Value_of_double (Finite 0))
   \<and> type (Value_of_Int64 1) \<noteq> type (Value_of_double (Finite 0))
   \<and> Value_less (Value_of_Int64 1) (Value_of_double (Finite 0))
   \<and> \<not> Value_less (Value_of_Int64 1) (Value_of_Int64 1)
   \<and> Value_eq (Value_of_Int64 1) (Value_of_Int64 2)
       = (\<not> Value_less (Value_of_Int64 1) (Value_of_Int64 2)
          \<and> \<not> Value_less (Value_of_Int64 2) (Value_of_Int64 1))"
proof -
  have h: "is_scalar (Value_of_Int64 1)" "is_scalar (Value_of_Int64 2)"
    "is_scalar (Value_of_double (Finite 0))"
    "\<not> holds_NaN (Value_of_Int64 1)" "\<not> holds_NaN (Value_of_Int64 2)"
    "\<not> holds_NaN (Value_of_double (Finite 0))"
    "type (Value_of_Int64 1) \<noteq> type (Value_of_double (Finite 0))"
    by (simp_all add: is_scalar_def holds_NaN_def Value_of_Int64_def Value_of_double_def)
  have r: "ValueType_rank (type (Value_of_Int64 1))
      < ValueType_rank (type (Value_of_double (Finite 0)))"
    by (simp add: Value_of_Int64_def Value_of_double_def)
  show ?thesis
    using h r
      Value_order [of "Value_of_Int64 1" "Value_of_double (Finite 0)" "Value_of_Int64 2"]
      Value_order [of "Value_of_Int64 1" "Value_of_Int64 2" "Value_of_double (Finite 0)"]
    by blast
qed


text \<open>
  The claim as stated fails on a Real node holding NaN: it is neither less than, nor
  greater than, nor equal to the Real node holding 1, and it is not equal to itself.
\<close>

theorem Value_order_counterexample:
  "\<not> Value_less (Value_of_double NaN) (Value_of_double (Finite 1))
   \<and> \<not> Value_less (Value_of_double (Finite 1)) (Value_of_double NaN)
   \<and> \<not> Value_eq (Value_of_double NaN) (Value_of_double (Finite 1))
   \<and> \<not> Value_less (Value_of_double NaN) (Value_of_double NaN)
   \<and> \<not> Value_eq (Value_of_double NaN) (Value_of_double NaN)"
  by (simp add: Value_less.simps Value_eq.simps Value_of_double_def double_eq_def)


subsection \<open>Conversion to a 32-bit integer\<close>

lemma sint_word_of_int_32:
  assumes "- (2 ^ 31) \<le> x" and "x \<le> 2 ^ 31 - 1"
  shows "sint (word_of_int x :: 32 word) = x"
proof -
  have "sint (word_of_int x :: 32 word) = signed_take_bit 31 x"
    by (simp add: sint_sbintrunc')
  also have "\<dots> = x"
    using assms by (intro signed_take_bit_int_eq_self) simp_all
  finally show ?thesis .
qed

lemma trunc_range:
  assumes "- (2 ^ 31) \<le> q" and "q \<le> 2 ^ 31 - 1"
  shows "- (2 ^ 31) \<le> trunc q \<and> trunc q \<le> 2 ^ 31 - 1"
proof (cases "0 \<le> q")
  case True
  then have "0 \<le> \<lfloor>q\<rfloor>" by simp
  moreover have "\<lfloor>q\<rfloor> \<le> 2 ^ 31 - 1"
    using assms(2) by (simp add: floor_le_iff)
  ultimately show ?thesis using True by (simp add: trunc_def)
next
  case False
  then have "\<lceil>q\<rceil> \<le> 0" by (simp add: ceiling_le_iff)
  moreover have "- (2 ^ 31) \<le> \<lceil>q\<rceil>"
    using assms(1) by (simp add: le_ceiling_iff)
  ultimately show ?thesis using False by (simp add: trunc_def)
qed

lemma sint_Int_of_double:
  assumes "- (2 ^ 31) \<le> q" and "q \<le> 2 ^ 31 - 1"
  shows "sint (Int_of_double (Finite q)) = trunc q"
  using sint_word_of_int_32 [of "trunc q"] trunc_range [OF assms] by simp

lemma truncation_fits_Finite:
  assumes "- (2 ^ 31) \<le> q" and "q \<le> 2 ^ 31 - 1"
  shows "truncation_fits (Finite q)"
  using trunc_range [OF assms] by (simp add: truncation_fits_def minInt_def maxInt_def)

lemma in_Int_range_Finite:
  "in_Int_range (Finite q) = (- (2 ^ 31) \<le> q \<and> q \<le> 2 ^ 31 - 1)"
  by (auto simp: in_Int_range_def double_le_def double_eq_def double_of_int_def minInt_def maxInt_def)

lemma in_Int_range_others:
  "\<not> in_Int_range PlusInf" "\<not> in_Int_range MinusInf" "\<not> in_Int_range NaN"
  by (simp_all add: in_Int_range_def double_le_def double_eq_def double_of_int_def)

text \<open>
  C9. In a build with \<^verbatim>\<open>JSONCPP_ENABLE_ASSERTS\<close>, \<^verbatim>\<open>asInt\<close> returns the default on a Null
  node, and on no other node does its result depend on the default; on an Int, UInt or
  Real node whose value lies in the range of the 32-bit signed integer it returns that
  value (a Real truncated towards zero) and outside the range it fails with
  \<^verbatim>\<open>std::runtime_error\<close>, as it does on the UInt node holding \<open>2 ^ 31\<close>, one more than the
  largest signed value; a Bool node gives 1 or 0.
\<close>

theorem asInt_checked:
  assumes "enable_asserts b"
  shows
    "Value_asInt b (Value nullValue h a) d = Inr d
     \<and> (type v \<noteq> nullValue \<longrightarrow> Value_asInt b v d = Value_asInt b v d')
     \<and> (- (2 ^ 31) \<le> sint i \<and> sint i \<le> 2 ^ 31 - 1 \<longrightarrow>
          (\<exists>r. Value_asInt b (Value intValue (U_int i) a) d = Inr r \<and> sint r = sint i))
     \<and> (sint i < - (2 ^ 31) \<or> 2 ^ 31 - 1 < sint i \<longrightarrow>
          Value_asInt b (Value intValue (U_int i) a) d
            = Inl (runtime_error ''unsigned integer out of signed int range''))
     \<and> (uint u \<le> 2 ^ 31 - 1 \<longrightarrow>
          (\<exists>r. Value_asInt b (Value uintValue (U_int u) a) d = Inr r \<and> sint r = uint u))
     \<and> (2 ^ 31 - 1 < uint u \<longrightarrow>
          Value_asInt b (Value uintValue (U_int u) a) d
            = Inl (runtime_error ''unsigned integer out of signed int range''))
     \<and> Value_asInt b (Value_of_UInt64 (2 ^ 31)) d
          = Inl (runtime_error ''unsigned integer out of signed int range'')
     \<and> (- (2 ^ 31) \<le> q \<and> q \<le> 2 ^ 31 - 1 \<longrightarrow>
          (\<exists>r. Value_asInt b (Value realValue (U_real (Finite q)) a) d = Inr r
               \<and> sint r = trunc q))
     \<and> (x = NaN \<or> x = PlusInf \<or> x = MinusInf
          \<or> (\<exists>p. x = Finite p \<and> (p < - (2 ^ 31) \<or> 2 ^ 31 - 1 < p)) \<longrightarrow>
          Value_asInt b (Value realValue (U_real x) a) d
            = Inl (runtime_error ''Real out of signed integer range''))
     \<and> Value_asInt b (Value booleanValue (U_bool t) a) d = Inr (if t then 1 else 0)"
proof -
  have c1: "Value_asInt b (Value nullValue h a) d = Inr d"
    by (simp add: Value_asInt_def)
  have c2: "type v \<noteq> nullValue \<longrightarrow> Value_asInt b v d = Value_asInt b v d'"
    using assms by (cases "type v") (simp_all add: Value_asInt_def)
  have c3: "- (2 ^ 31) \<le> sint i \<and> sint i \<le> 2 ^ 31 - 1 \<longrightarrow>
          (\<exists>r. Value_asInt b (Value intValue (U_int i) a) d = Inr r \<and> sint r = sint i)"
    using sint_word_of_int_32 [of "sint i"]
    by (simp add: Value_asInt_def JSONCPP_ASSERT_MESSAGE_fails_def minInt_def maxInt_def)
  have c4: "sint i < - (2 ^ 31) \<or> 2 ^ 31 - 1 < sint i \<longrightarrow>
          Value_asInt b (Value intValue (U_int i) a) d
            = Inl (runtime_error ''unsigned integer out of signed int range'')"
    using assms
    by (auto simp: Value_asInt_def JSONCPP_ASSERT_MESSAGE_fails_def minInt_def maxInt_def)
  have c5: "uint u \<le> 2 ^ 31 - 1 \<longrightarrow>
          (\<exists>r. Value_asInt b (Value uintValue (U_int u) a) d = Inr r \<and> sint r = uint u)"
  proof -
    have "- (2 ^ 31) \<le> uint u"
      by (rule order_trans [of _ 0]) simp_all
    then have "uint u \<le> 2 ^ 31 - 1 \<Longrightarrow> sint (word_of_int (uint u) :: 32 word) = uint u"
      by (rule sint_word_of_int_32)
    then show ?thesis
      by (simp add: Value_asInt_def JSONCPP_ASSERT_MESSAGE_fails_def minInt_def maxInt_def)
  qed
  have c6: "2 ^ 31 - 1 < uint u \<longrightarrow>
          Value_asInt b (Value uintValue (U_int u) a) d
            = Inl (runtime_error ''unsigned integer out of signed int range'')"
    using assms
    by (auto simp: Value_asInt_def JSONCPP_ASSERT_MESSAGE_fails_def minInt_def maxInt_def)
  have c7: "Value_asInt b (Value_of_UInt64 (2 ^ 31)) d
          = Inl (runtime_error ''unsigned integer out of signed int range'')"
    using assms
    by (simp add: Value_asInt_def Value_of_UInt64_def JSONCPP_ASSERT_MESSAGE_fails_def maxInt_def)
  have c8: "- (2 ^ 31) \<le> q \<and> q \<le> 2 ^ 31 - 1 \<longrightarrow>
          (\<exists>r. Value_asInt b (Value realValue (U_real (Finite q)) a) d = Inr r
               \<and> sint r = trunc q)"
    using sint_Int_of_double [of q] truncation_fits_Finite [of q]
    by (simp add: Value_asInt_def JSONCPP_ASSERT_MESSAGE_fails_def in_Int_range_Finite)
  have c9: "x = NaN \<or> x = PlusInf \<or> x = MinusInf
          \<or> (\<exists>p. x = Finite p \<and> (p < - (2 ^ 31) \<or> 2 ^ 31 - 1 < p)) \<longrightarrow>
          Value_asInt b (Value realValue (U_real x) a) d
            = Inl (runtime_error ''Real out of signed integer range'')"
    using assms in_Int_range_others
    by (auto simp: Value_asInt_def JSONCPP_ASSERT_MESSAGE_fails_def in_Int_range_Finite)
  have c10: "Value_asInt b (Value booleanValue (U_bool t) a) d = Inr (if t then 1 else 0)"
    by (simp add: Value_asInt_def)
  from c1 c2 c3 c4 c5 c6 c7 c8 c9 c10 show ?thesis by blast
qed


theorem asInt_checked_witness:
  "enable_asserts checked
   \<and> Value_asInt checked (Value nullValue (U_int 0) False) 5 = Inr 5
   \<and> Value_asInt checked (Value_of_UInt64 (2 ^ 31)) 5
        = Inl (runtime_error ''unsigned integer out of signed int range'')
   \<and> Value_asInt checked (Value booleanValue (U_bool True) False) 5 = Inr 1"
  using asInt_checked [where b = checked and h = "U_int 0" and a = False and d = 5 and t = True]
  by (simp add: checked_def)

subsection \<open>Type predicates\<close>

text \<open>
  C10. For every node, \<^verbatim>\<open>isArray()\<close> is true exactly when the tag is Null or Array and
  \<^verbatim>\<open>isObject()\<close> exactly when the tag is Null or Object; so the nodes reported both as an
  array and as an object are exactly the Null nodes, for which \<^verbatim>\<open>isNull()\<close> is true, and a
  freshly default-constructed node is reported as all three.
\<close>

theorem isArray_isObject_null:
  "isArray v = (type v \<in> {nullValue, arrayValue})
   \<and> isObject v = (type v \<in> {nullValue, objectValue})
   \<and> (isArray v \<and> isObject v) = isNull v
   \<and> isNull v = (type v = nullValue)
   \<and> isArray (Value_of_type nullValue) \<and> isObject (Value_of_type nullValue)
   \<and> isNull (Value_of_type nullValue)"
  by (auto simp: isArray_def isObject_def isNull_def)

end
